theory Spec2Isabelle
  imports Main "HOL-Library.Word"
begin

section \<open>Bytes, Python values and exceptions\<close>

text \<open>
  The DataLayer wallet of \<^verbatim>\<open>chia/data_layer/data_layer_wallet.py\<close> is embedded
  function by function. Byte strings are lists of octets; a \<^verbatim>\<open>bytes32\<close> is a byte
  string whose length the constructor checks. Every \<^verbatim>\<open>raise\<close> and every failing
  \<^verbatim>\<open>assert\<close> of the source is a value of \<open>error\<close>: the first six are the
  \<^verbatim>\<open>ValueError\<close>s of the authoring path (named after the error kinds of the
  specification), the next nine the \<^verbatim>\<open>ValueError\<close>s of the other entry points, the
  last five the Python exceptions raised by built-in operations (\<open>ValueError\<close> is the one
  of the sized integer and sized bytes constructors).
\<close>

type_synonym bytes = "8 word list"
type_synonym bytes32 = "8 word list"

datatype error =
    NotTracked | Pending | InsufficientLineage | ParentNotFound | NoLauncherInfo | NotOwned
  | NotEnoughInfo | OneCoinAtATime | CoinNotTracked | OnePlaceAtATime
  | NotAValidCoin | NotASingletonLauncher | NotCreated | NotSpent | NotEnoughCoins
  | AssertionError | IndexError | TypeError | AttributeError | ValueError

text \<open>
  What \<^verbatim>\<open>Program.as_python()\<close> returns: atoms are \<^verbatim>\<open>bytes\<close>, lists (and
  pairs, which index and iterate alike) are Python lists. Indexing a \<^verbatim>\<open>bytes\<close> value
  gives an \<^verbatim>\<open>int\<close>.
\<close>

datatype pyval = PyBytes bytes | PyList "pyval list" | PyInt nat

fun py_getitem :: "pyval \<Rightarrow> nat \<Rightarrow> error + pyval" where
  "py_getitem (PyList xs) i = (if i < length xs then Inr (xs ! i) else Inl IndexError)"
| "py_getitem (PyBytes bs) i = (if i < length bs then Inr (PyInt (unat (bs ! i))) else Inl IndexError)"
| "py_getitem (PyInt n) i = Inl TypeError"

fun py_iter :: "pyval \<Rightarrow> error + pyval list" where
  "py_iter (PyList xs) = Inr xs"
| "py_iter (PyBytes bs) = Inr (map (\<lambda>b. PyInt (unat b)) bs)"
| "py_iter (PyInt n) = Inl TypeError"

text \<open>\<^verbatim>\<open>bytes(xs)\<close> for a list: every element must be an \<^verbatim>\<open>int\<close> below 256.\<close>

fun bytes_of_ints :: "pyval list \<Rightarrow> error + bytes" where
  "bytes_of_ints [] = Inr []"
| "bytes_of_ints (PyInt n # xs) =
     (if n < 256 then (case bytes_of_ints xs of Inl e \<Rightarrow> Inl e | Inr bs \<Rightarrow> Inr (of_nat n # bs))
      else Inl ValueError)"
| "bytes_of_ints (_ # xs) = Inl TypeError"

definition sized32 :: "bytes \<Rightarrow> error + bytes32" where
  "sized32 bs = (if length bs = 32 then Inr bs else Inl ValueError)"

text \<open>The constructor \<^verbatim>\<open>bytes32(v)\<close>: \<^verbatim>\<open>bytes(v)\<close>, then the length check.\<close>

fun bytes32_of :: "pyval \<Rightarrow> error + bytes32" where
  "bytes32_of (PyBytes bs) = sized32 bs"
| "bytes32_of (PyInt n) = sized32 (replicate n 0)"
| "bytes32_of (PyList xs) = (case bytes_of_ints xs of Inl e \<Rightarrow> Inl e | Inr bs \<Rightarrow> sized32 bs)"

definition big_endian :: "bytes \<Rightarrow> nat" where
  "big_endian bs = foldl (\<lambda>a b. 256 * a + unat b) 0 bs"

text \<open>\<^verbatim>\<open>int.from_bytes(v, "big")\<close>.\<close>

fun int_from_bytes :: "pyval \<Rightarrow> error + nat" where
  "int_from_bytes (PyBytes bs) = Inr (big_endian bs)"
| "int_from_bytes (PyInt n) = Inl TypeError"
| "int_from_bytes (PyList xs) = (case bytes_of_ints xs of Inl e \<Rightarrow> Inl e | Inr bs \<Rightarrow> Inr (big_endian bs))"

definition uint32 :: "nat \<Rightarrow> error + nat" where
  "uint32 n = (if n < 2 ^ 32 then Inr n else Inl ValueError)"

definition uint64 :: "nat \<Rightarrow> error + nat" where
  "uint64 n = (if n < 2 ^ 64 then Inr n else Inl ValueError)"

text \<open>
  CLVM programs, as the terms \<^verbatim>\<open>Program.to\<close> is applied to: byte atoms, integer atoms
  and pairs; a Python list is a nil-terminated chain of pairs.
\<close>

datatype program = Atom bytes | IntAtom int | Pair program program

definition nil :: program where
  "nil = Atom []"

definition plist :: "program list \<Rightarrow> program" where
  "plist ps = foldr Pair ps nil"

fun first :: "program \<Rightarrow> error + program" where
  "first (Pair a b) = Inr a"
| "first _ = Inl ValueError"

fun rest :: "program \<Rightarrow> error + program" where
  "rest (Pair a b) = Inr b"
| "rest _ = Inl ValueError"

text \<open>\<^verbatim>\<open>p.at("rfr")\<close>: rest, first, rest.\<close>

definition at_rfr :: "program \<Rightarrow> error + program" where
  "at_rfr p =
     (case rest p of Inl e \<Rightarrow> Inl e
      | Inr a \<Rightarrow> (case first a of Inl e \<Rightarrow> Inl e | Inr b \<Rightarrow> rest b))"

section \<open>The data model\<close>

record Coin =
  parent_coin_info :: bytes32
  puzzle_hash :: bytes32
  amount :: nat

record LineageProof =
  lp_parent_name :: "bytes32 option"
  lp_inner_puzzle_hash :: "bytes32 option"
  lp_amount :: "nat option"

record SingletonRecord =
  coin_id :: bytes32
  launcher_id :: bytes32
  root :: bytes32
  inner_puzzle_hash :: bytes32
  confirmed :: bool
  confirmed_at_height :: nat
  lineage_proof :: LineageProof
  generation :: nat
  timestamp :: nat

record CoinSpend =
  coin :: Coin
  puzzle_reveal :: program
  solution :: program

datatype G2Element = G2Infinity | G2Signature bytes | G2Aggregate "G2Element list"

record SpendBundle =
  coin_spends :: "CoinSpend list"
  aggregated_signature :: G2Element

record Announcement =
  origin_info :: bytes32
  message :: bytes

record AmountWithPuzzlehash =
  puzzlehash :: bytes32
  pamount :: nat
  memos :: "bytes list"

datatype TransactionType = INCOMING_TX | OUTGOING_TX

text \<open>
  The transaction record with the fields the wallet fills in; \<^verbatim>\<open>sent_to\<close> (always
  empty) and \<^verbatim>\<open>trade_id\<close> (always \<^verbatim>\<open>None\<close>) are left out.
\<close>

record TransactionRecord =
  tx_confirmed_at_height :: nat
  created_at_time :: nat
  to_puzzle_hash :: bytes32
  tx_amount :: nat
  fee_amount :: nat
  tx_confirmed :: bool
  sent :: nat
  spend_bundle :: "SpendBundle option"
  tx_additions :: "Coin list"
  tx_removals :: "Coin list"
  tx_memos :: "(bytes32 \<times> bytes list) list"
  wallet_id :: nat
  tx_type :: TransactionType
  tx_name :: bytes32

record CoinState =
  cs_coin :: Coin
  created_height :: "nat option"
  spent_height :: "nat option"

record WalletCoinRecord =
  wcr_coin :: Coin
  confirmed_block_height :: nat
  spent_block_height :: nat
  spent :: bool
  coinbase :: bool
  wcr_wallet_id :: nat

text \<open>
  A Python collection of announcements that a caller passes by reference: the parameter
  is annotated as a set, the source appends to it as to a list.
\<close>

datatype pyobj = PyListObj "Announcement list" | PySetObj "Announcement set"

fun elements :: "pyobj \<Rightarrow> Announcement set" where
  "elements (PyListObj xs) = set xs"
| "elements (PySetObj s) = s"

datatype log_entry =
    InfoAlreadyProcessed bytes32
  | InfoSingletonRemoved Coin
  | WarningNoParent bytes32
  | WarningBadHint bytes32 bytes32
  | WarningMelted bytes32
  | InfoAttemptingRebase
  | WarningResubmitFailed error

section \<open>The collaborators\<close>

text \<open>
  The hash functions, the puzzle library, the chain client, the standard wallet, the
  derivation index and the signer are outside the wallet's source file. They are the
  fields of \<open>env\<close>, and every theorem holds for every \<open>env\<close> unless it says otherwise.
  \<open>host_fullpuz_hash env h r l\<close> is
  \<^verbatim>\<open>create_host_fullpuz(h, r, l).get_tree_hash(h)\<close> for an inner puzzle hash \<open>h\<close>, and
  \<open>host_layer_hash env h r\<close> is \<^verbatim>\<open>create_host_layer_puzzle(h, r).get_tree_hash(h)\<close>.
\<close>

record env =
  coin_name :: "Coin \<Rightarrow> bytes32"
  tree_hash :: "program \<Rightarrow> bytes32"
  announcement_name :: "Announcement \<Rightarrow> bytes32"
  host_fullpuz_hash :: "bytes32 \<Rightarrow> bytes32 \<Rightarrow> bytes32 \<Rightarrow> bytes32"
  create_host_fullpuz :: "program \<Rightarrow> bytes32 \<Rightarrow> bytes32 \<Rightarrow> program"
  host_layer_hash :: "bytes32 \<Rightarrow> bytes32 \<Rightarrow> bytes32"
  create_host_layer_puzzle :: "program \<Rightarrow> bytes32 \<Rightarrow> program"
  launch_solution_to_singleton_info :: "program \<Rightarrow> error + (bytes32 \<times> nat \<times> bytes32 \<times> bytes32)"
  match_dl_singleton :: "program \<Rightarrow> bool"
  run_with_cost :: "program \<Rightarrow> program \<Rightarrow> error + pyval"
  lineage_to_program :: "LineageProof \<Rightarrow> program"
  SINGLETON_LAUNCHER :: program
  ACS_MU :: program
  ACS_MU_PH :: bytes32
  get_coin_state :: "bytes32 list \<Rightarrow> CoinState list"
  get_timestamp_for_height :: "nat \<Rightarrow> nat"
  get_derivation_record_for_puzzle_hash :: "bytes32 \<Rightarrow> bytes option"
  puzzle_for_pk :: "bytes \<Rightarrow> program"
  get_new_puzzle :: program
  get_new_puzzlehash :: bytes32
  select_coins :: "nat \<Rightarrow> Coin list option"
  make_solution :: "AmountWithPuzzlehash list \<Rightarrow> bytes set option \<Rightarrow> bytes32 set option
                      \<Rightarrow> bytes32 set option \<Rightarrow> program"
  std_generate_signed_transaction :: "nat \<Rightarrow> bytes32 \<Rightarrow> nat \<Rightarrow> bytes32 option \<Rightarrow> Coin list option
                      \<Rightarrow> Announcement set option \<Rightarrow> Announcement set option
                      \<Rightarrow> error + TransactionRecord option"
  std_wallet_id :: nat
  dl_wallet_id :: nat
  sign_coin_spends :: "CoinSpend list \<Rightarrow> error + SpendBundle"
  additions :: "SpendBundle \<Rightarrow> Coin list"
  removals :: "SpendBundle \<Rightarrow> Coin list"
  fees :: "SpendBundle \<Rightarrow> nat"
  compute_memos :: "SpendBundle \<Rightarrow> (bytes32 \<times> bytes list) list"
  bundle_name :: "SpendBundle \<Rightarrow> bytes32"
  time_now :: nat

text \<open>
  Modelled from the spec: \<^verbatim>\<open>SpendBundle.aggregate\<close> is not in the source file; the
  specification (4.C, step 11) has the two bundles aggregated: the coin spends of both, in
  order, under the aggregate of the two signatures.
\<close>

definition aggregate :: "SpendBundle list \<Rightarrow> SpendBundle" where
  "aggregate sbs = \<lparr>coin_spends = concat (map coin_spends sbs),
                    aggregated_signature = G2Aggregate (map aggregated_signature sbs)\<rparr>"

section \<open>The stores\<close>

record wallet_state =
  singletons :: "SingletonRecord list"
  launchers :: "(bytes32 \<times> Coin) list"
  transactions :: "TransactionRecord list"
  coin_records :: "WalletCoinRecord list"
  interested_puzzle_hashes :: "(bytes32 \<times> nat) list"
  interested_coin_ids :: "bytes32 list"
  heap :: "nat \<Rightarrow> pyobj"
  logged :: "log_entry list"

text \<open>
  Modelled from the spec: the singleton store (\<^verbatim>\<open>dl_store\<close>) and the transaction
  store (\<^verbatim>\<open>tx_store\<close>) are not in the source file. From sections 3 and 5 of the
  specification: rows are keyed by \<open>coin_id\<close>, which is unique, so adding a record
  replaces the row of the same \<open>coin_id\<close> (scenario 2: sync adds the confirmed record
  and the history has one row for that coin); \<open>set_confirmed\<close> changes the confirmation
  fields of one row only; the latest singleton of a launcher is the row of greatest
  generation; the queries by launcher return the launcher's rows from a minimum generation
  onward, or its unconfirmed rows. Rows are kept in insertion order.
\<close>

definition get_singleton_record :: "wallet_state \<Rightarrow> bytes32 \<Rightarrow> SingletonRecord option" where
  "get_singleton_record st cid = find (\<lambda>r. coin_id r = cid) (singletons st)"

fun latest_of :: "SingletonRecord list \<Rightarrow> SingletonRecord option" where
  "latest_of [] = None"
| "latest_of (r # rs) =
     (case latest_of rs of None \<Rightarrow> Some r
      | Some m \<Rightarrow> if generation r < generation m then Some m else Some r)"

definition get_latest_singleton :: "wallet_state \<Rightarrow> bytes32 \<Rightarrow> bool \<Rightarrow> SingletonRecord option" where
  "get_latest_singleton st l only_confirmed =
     latest_of (filter (\<lambda>r. launcher_id r = l \<and> (if only_confirmed then confirmed r else True))
                  (singletons st))"

definition get_all_singletons_for_launcher :: "wallet_state \<Rightarrow> bytes32 \<Rightarrow> nat \<Rightarrow> SingletonRecord list" where
  "get_all_singletons_for_launcher st l min_generation =
     filter (\<lambda>r. launcher_id r = l \<and> min_generation \<le> generation r) (singletons st)"

definition get_unconfirmed_singletons :: "wallet_state \<Rightarrow> bytes32 \<Rightarrow> SingletonRecord list" where
  "get_unconfirmed_singletons st l =
     filter (\<lambda>r. launcher_id r = l \<and> \<not> confirmed r) (singletons st)"

definition add_singleton_record :: "wallet_state \<Rightarrow> SingletonRecord \<Rightarrow> wallet_state" where
  "add_singleton_record st r =
     st\<lparr>singletons := filter (\<lambda>x. coin_id x \<noteq> coin_id r) (singletons st) @ [r]\<rparr>"

definition set_confirmed :: "wallet_state \<Rightarrow> bytes32 \<Rightarrow> nat \<Rightarrow> nat \<Rightarrow> wallet_state" where
  "set_confirmed st cid height ts =
     st\<lparr>singletons := map (\<lambda>r. if coin_id r = cid
                                 then r\<lparr>confirmed := True, confirmed_at_height := height, timestamp := ts\<rparr>
                                 else r) (singletons st)\<rparr>"

definition delete_singleton_record :: "wallet_state \<Rightarrow> bytes32 \<Rightarrow> wallet_state" where
  "delete_singleton_record st cid = st\<lparr>singletons := filter (\<lambda>r. coin_id r \<noteq> cid) (singletons st)\<rparr>"

definition get_launcher :: "wallet_state \<Rightarrow> bytes32 \<Rightarrow> Coin option" where
  "get_launcher st l = map_of (launchers st) l"

definition add_launcher :: "env \<Rightarrow> wallet_state \<Rightarrow> Coin \<Rightarrow> wallet_state" where
  "add_launcher env st c =
     st\<lparr>launchers := filter (\<lambda>(k, _). k \<noteq> coin_name env c) (launchers st) @ [(coin_name env c, c)]\<rparr>"

definition get_transaction_record :: "wallet_state \<Rightarrow> bytes32 \<Rightarrow> TransactionRecord option" where
  "get_transaction_record st n = find (\<lambda>t. tx_name t = n) (transactions st)"

definition get_unconfirmed_for_wallet :: "wallet_state \<Rightarrow> nat \<Rightarrow> TransactionRecord list" where
  "get_unconfirmed_for_wallet st w = filter (\<lambda>t. \<not> tx_confirmed t \<and> wallet_id t = w) (transactions st)"

definition delete_transaction_record :: "wallet_state \<Rightarrow> bytes32 \<Rightarrow> wallet_state" where
  "delete_transaction_record st n = st\<lparr>transactions := filter (\<lambda>t. tx_name t \<noteq> n) (transactions st)\<rparr>"

definition add_pending_transaction :: "wallet_state \<Rightarrow> TransactionRecord \<Rightarrow> wallet_state" where
  "add_pending_transaction st t =
     st\<lparr>transactions := filter (\<lambda>x. tx_name x \<noteq> tx_name t) (transactions st) @ [t]\<rparr>"

definition add_interested_puzzle_hashes :: "wallet_state \<Rightarrow> bytes32 list \<Rightarrow> nat list \<Rightarrow> wallet_state" where
  "add_interested_puzzle_hashes st phs ws =
     st\<lparr>interested_puzzle_hashes := interested_puzzle_hashes st @ zip phs ws\<rparr>"

definition add_interested_coin_ids :: "wallet_state \<Rightarrow> bytes32 list \<Rightarrow> wallet_state" where
  "add_interested_coin_ids st ids = st\<lparr>interested_coin_ids := interested_coin_ids st @ ids\<rparr>"

definition add_coin_record :: "wallet_state \<Rightarrow> WalletCoinRecord \<Rightarrow> wallet_state" where
  "add_coin_record st c = st\<lparr>coin_records := coin_records st @ [c]\<rparr>"

definition log_add :: "wallet_state \<Rightarrow> log_entry \<Rightarrow> wallet_state" where
  "log_add st e = st\<lparr>logged := logged st @ [e]\<rparr>"

section \<open>Successor authoring\<close>

definition get_spendable_singleton_info ::
  "wallet_state \<Rightarrow> bytes32 \<Rightarrow> error + (SingletonRecord \<times> LineageProof)" where
  "get_spendable_singleton_info st l =
     (case get_latest_singleton st l False of
        None \<Rightarrow> Inl NotTracked
      | Some singleton_record \<Rightarrow>
          if \<not> confirmed singleton_record then Inl Pending
          else (case lp_parent_name (lineage_proof singleton_record) of
                  None \<Rightarrow> Inl InsufficientLineage
                | Some parent_name \<Rightarrow>
                    if lp_amount (lineage_proof singleton_record) = None then Inl InsufficientLineage
                    else (case get_singleton_record st parent_name of
                            None \<Rightarrow>
                              if parent_name \<noteq> l then Inl ParentNotFound
                              else (case get_launcher st l of
                                      None \<Rightarrow> Inl NoLauncherInfo
                                    | Some launcher_coin \<Rightarrow>
                                        Inr (singleton_record,
                                             \<lparr>lp_parent_name = Some (parent_coin_info launcher_coin),
                                              lp_inner_puzzle_hash = None,
                                              lp_amount = Some (amount launcher_coin)\<rparr>))
                          | Some parent_singleton \<Rightarrow>
                              Inr (singleton_record, lineage_proof parent_singleton))))"

definition create_tandem_xch_tx ::
  "env \<Rightarrow> nat \<Rightarrow> Announcement \<Rightarrow> bool \<Rightarrow> error + TransactionRecord" where
  "create_tandem_xch_tx env fee announcement_to_assert coin_announcement =
     (case std_generate_signed_transaction env 0 (get_new_puzzlehash env) fee None None
             (if coin_announcement then Some {announcement_to_assert} else None)
             (if coin_announcement then None else Some {announcement_to_assert}) of
        Inl e \<Rightarrow> Inl e
      | Inr None \<Rightarrow> Inl AttributeError
      | Inr (Some chia_tx) \<Rightarrow>
          if spend_bundle chia_tx = None then Inl AssertionError else Inr chia_tx)"

text \<open>
  The constant-emitter inner puzzle of the ephemeral coin (lines 481 to 494):
  \<^verbatim>\<open>(1 . ((51 new_puz_hash amount (launcher_id root_hash new_puz_hash)) (62 "$")))\<close>.
\<close>

definition announce_only_puzzle :: "bytes32 \<Rightarrow> nat \<Rightarrow> bytes32 \<Rightarrow> bytes32 \<Rightarrow> program" where
  "announce_only_puzzle new_puz_hash amt l root_hash =
     Pair (IntAtom 1)
       (plist [plist [IntAtom 51, Atom new_puz_hash, IntAtom (int amt),
                      plist [Atom l, Atom root_hash, Atom new_puz_hash]],
               plist [IntAtom 62, Atom [0x24]]])"

text \<open>
  The ephemeral step (lines 480 to 547), taken when \<open>announce_new_state\<close> holds. It
  returns the ephemeral record and its coin spend, the final successor record, and the
  announcements the local variable \<open>puzzle_announcements_to_consume\<close> then holds; a
  caller's list is appended to in place on the heap, a caller's set has no \<open>append\<close>.
\<close>

definition announce_step ::
  "env \<Rightarrow> wallet_state \<Rightarrow> bytes32 \<Rightarrow> bytes32 \<Rightarrow> bytes32 \<Rightarrow> SingletonRecord \<Rightarrow> Coin \<Rightarrow> program
     \<Rightarrow> nat \<Rightarrow> bytes32 \<Rightarrow> nat option \<Rightarrow> SingletonRecord
     \<Rightarrow> (error + (SingletonRecord \<times> SingletonRecord \<times> CoinSpend \<times> Announcement set)) \<times> wallet_state" where
  "announce_step env st l root_hash new_puz_hash singleton_record current_coin current_inner_puzzle
       amt next_full_puz_hash puzzle_announcements_to_consume new_singleton_record =
     (let announce_only = announce_only_puzzle new_puz_hash amt l root_hash;
          second_full_puz = create_host_fullpuz env announce_only root_hash l;
          second_coin = \<lparr>parent_coin_info = coin_name env current_coin,
                         puzzle_hash = tree_hash env second_full_puz, amount = amt\<rparr>;
          second_coin_spend =
            \<lparr>coin = second_coin, puzzle_reveal = second_full_puz,
             solution = plist [lineage_to_program env
                                 \<lparr>lp_parent_name = Some (parent_coin_info current_coin),
                                  lp_inner_puzzle_hash =
                                    Some (tree_hash env (create_host_layer_puzzle env current_inner_puzzle
                                                           (root singleton_record))),
                                  lp_amount = Some amt\<rparr>,
                               IntAtom (int amt), plist [nil]]\<rparr>;
          root_announce = \<lparr>origin_info = tree_hash env second_full_puz, message = [0x24]\<rparr>
      in (case (case puzzle_announcements_to_consume of
                  None \<Rightarrow> Inr ({root_announce}, st)
                | Some ref \<Rightarrow>
                    (case heap st ref of
                       PyListObj xs \<Rightarrow>
                         Inr (set (xs @ [root_announce]),
                              st\<lparr>heap := (heap st)(ref := PyListObj (xs @ [root_announce]))\<rparr>)
                     | PySetObj s \<Rightarrow> Inl AttributeError)) of
            Inl e \<Rightarrow> (Inl e, st)
          | Inr (anns, st') \<Rightarrow>
              (case uint32 (generation singleton_record + 1) of
                 Inl e \<Rightarrow> (Inl e, st')
               | Inr gen1 \<Rightarrow>
                   let second_singleton_record =
                         \<lparr>coin_id = coin_name env second_coin, launcher_id = l, root = root_hash,
                          inner_puzzle_hash = tree_hash env announce_only, confirmed = False,
                          confirmed_at_height = 0,
                          lineage_proof = \<lparr>lp_parent_name = Some (parent_coin_info second_coin),
                                           lp_inner_puzzle_hash = Some (tree_hash env announce_only),
                                           lp_amount = Some amt\<rparr>,
                          generation = gen1, timestamp = 0\<rparr>
                   in (case uint32 (generation second_singleton_record + 1) of
                         Inl e \<Rightarrow> (Inl e, st')
                       | Inr gen2 \<Rightarrow>
                           (Inr (new_singleton_record
                                   \<lparr>coin_id := coin_name env
                                                 \<lparr>parent_coin_info = coin_name env second_coin,
                                                  puzzle_hash = next_full_puz_hash, amount = amt\<rparr>,
                                    lineage_proof := \<lparr>lp_parent_name = Some (coin_name env second_coin),
                                                      lp_inner_puzzle_hash = Some next_full_puz_hash,
                                                      lp_amount = Some amt\<rparr>,
                                    generation := gen2\<rparr>,
                                 second_singleton_record, second_coin_spend, anns), st')))))"

text \<open>
  The inner solution (lines 550 to 570): the create-coin condition of the successor, the
  announcements, and the root-change condition of opcode \<open>-24\<close> when the root changes.
\<close>

definition build_inner_sol ::
  "env \<Rightarrow> bytes32 \<Rightarrow> bytes32 \<Rightarrow> bytes32 \<Rightarrow> bytes32 \<Rightarrow> nat \<Rightarrow> nat \<Rightarrow> Announcement set option
     \<Rightarrow> Announcement set option \<Rightarrow> SingletonRecord \<Rightarrow> error + program" where
  "build_inner_sol env l root_hash new_puz_hash child_puzhash child_amount fee
       coin_announcements_to_consume puzzle_announcements_to_consume singleton_record =
     (let primaries = [\<lparr>puzzlehash = child_puzhash, pamount = child_amount,
                        memos = [l, root_hash, new_puz_hash]\<rparr>];
          inner_sol = make_solution env primaries
                        (if fee > 0 then Some {[0x24]} else None)
                        (case coin_announcements_to_consume of
                           None \<Rightarrow> None | Some s \<Rightarrow> Some (announcement_name env ` s))
                        (case puzzle_announcements_to_consume of
                           None \<Rightarrow> None | Some s \<Rightarrow> Some (announcement_name env ` s))
      in if root_hash \<noteq> root singleton_record
         then (let magic_condition =
                     plist [IntAtom (- 24), ACS_MU env,
                            plist [plist [Pair (Atom root_hash) nil, Atom (ACS_MU_PH env)], nil]]
               in (case at_rfr inner_sol of
                     Inl e \<Rightarrow> Inl e
                   | Inr conds \<Rightarrow> Inr (plist [nil, Pair (IntAtom 1) (Pair magic_condition conds), nil])))
         else Inr inner_sol)"

text \<open>
  The fee (lines 614 to 623): with a fee, the standard wallet's transaction is aggregated
  into the singleton's bundle and returned second, without its bundle.
\<close>

definition with_fee_tx ::
  "env \<Rightarrow> nat \<Rightarrow> Coin \<Rightarrow> TransactionRecord \<Rightarrow> SpendBundle \<Rightarrow> error + TransactionRecord list" where
  "with_fee_tx env fee current_coin dl_tx bundle =
     (if fee > 0
      then (case create_tandem_xch_tx env fee
                   \<lparr>origin_info = coin_name env current_coin, message = [0x24]\<rparr> True of
              Inl e \<Rightarrow> Inl e
            | Inr chia_tx \<Rightarrow>
                (case spend_bundle chia_tx of
                   None \<Rightarrow> Inl AttributeError
                 | Some chia_bundle \<Rightarrow>
                     Inr [dl_tx\<lparr>spend_bundle := Some (aggregate [bundle, chia_bundle])\<rparr>,
                          chia_tx\<lparr>spend_bundle := None\<rparr>]))
      else Inr [dl_tx])"

text \<open>
  The second half of \<open>create_update_state_spend\<close> (lines 549 to 636): the solution, the
  coin spend, the signature, the transaction records and, last, the pending records.
  \<open>ephemeral\<close> holds the ephemeral record and its coin spend when \<open>announce_new_state\<close>
  holds, \<open>anns\<close> what \<open>puzzle_announcements_to_consume\<close> holds by then.
\<close>

definition finish_update_state_spend ::
  "env \<Rightarrow> wallet_state \<Rightarrow> bytes32 \<Rightarrow> SingletonRecord \<Rightarrow> LineageProof \<Rightarrow> bytes32 \<Rightarrow> bytes32
     \<Rightarrow> Coin \<Rightarrow> program \<Rightarrow> nat \<Rightarrow> SingletonRecord \<Rightarrow> (SingletonRecord \<times> CoinSpend) option
     \<Rightarrow> Announcement set option \<Rightarrow> nat option \<Rightarrow> nat \<Rightarrow> Announcement set option
     \<Rightarrow> bool \<Rightarrow> bool \<Rightarrow> bool \<Rightarrow> (error + TransactionRecord list) \<times> wallet_state" where
  "finish_update_state_spend env st l singleton_record parent_lineage root_hash new_puz_hash
       current_coin current_full_puz amt new_singleton_record ephemeral anns new_amount fee
       coin_announcements_to_consume sign add_pending_singleton announce_new_state =
     (case build_inner_sol env l root_hash new_puz_hash
             (if announce_new_state
              then tree_hash env (announce_only_puzzle new_puz_hash amt l root_hash)
              else new_puz_hash)
             (case new_amount of None \<Rightarrow> amt | Some n \<Rightarrow> n)
             fee coin_announcements_to_consume anns singleton_record of
        Inl e \<Rightarrow> (Inl e, st)
      | Inr inner_sol \<Rightarrow>
     let db_layer_sol = plist [inner_sol];
         full_sol = plist [lineage_to_program env parent_lineage, IntAtom (int amt), db_layer_sol];
         coin_spend = \<lparr>coin = current_coin, puzzle_reveal = current_full_puz, solution = full_sol\<rparr>
     in
     (case (if sign then sign_coin_spends env [coin_spend]
            else Inr \<lparr>coin_spends = [coin_spend], aggregated_signature = G2Infinity\<rparr>) of
        Inl e \<Rightarrow> (Inl e, st)
      | Inr signed_bundle \<Rightarrow>
     let bundle = (case ephemeral of
                     None \<Rightarrow> signed_bundle
                   | Some (second, second_spend) \<Rightarrow>
                       signed_bundle\<lparr>coin_spends := [coin_spend, second_spend]\<rparr>);
         dl_tx = \<lparr>tx_confirmed_at_height = 0, created_at_time = time_now env,
                  to_puzzle_hash = new_puz_hash, tx_amount = amt, fee_amount = fee,
                  tx_confirmed = False, sent = 10, spend_bundle = Some bundle,
                  tx_additions = additions env bundle, tx_removals = removals env bundle,
                  tx_memos = compute_memos env bundle, wallet_id = dl_wallet_id env,
                  tx_type = OUTGOING_TX, tx_name = coin_id singleton_record\<rparr>
     in
     (case with_fee_tx env fee current_coin dl_tx bundle of
        Inl e \<Rightarrow> (Inl e, st)
      | Inr txs \<Rightarrow>
          (Inr txs,
           if add_pending_singleton
           then (let st2 = add_singleton_record st new_singleton_record
                 in (case ephemeral of
                       None \<Rightarrow> st2
                     | Some (second, second_spend) \<Rightarrow> add_singleton_record st2 second))
           else st))))"

definition create_update_state_spend ::
  "env \<Rightarrow> wallet_state \<Rightarrow> bytes32 \<Rightarrow> bytes32 option \<Rightarrow> bytes32 option \<Rightarrow> nat option \<Rightarrow> nat
     \<Rightarrow> Announcement set option \<Rightarrow> nat option \<Rightarrow> bool \<Rightarrow> bool \<Rightarrow> bool
     \<Rightarrow> (error + TransactionRecord list) \<times> wallet_state" where
  "create_update_state_spend env st l root_hash_opt new_puz_hash_opt new_amount fee
       coin_announcements_to_consume puzzle_announcements_to_consume sign add_pending_singleton
       announce_new_state =
     (case get_spendable_singleton_info st l of
        Inl e \<Rightarrow> (Inl e, st)
      | Inr (singleton_record, parent_lineage) \<Rightarrow>
     let root_hash = (case root_hash_opt of None \<Rightarrow> root singleton_record | Some r \<Rightarrow> r) in
     (case get_derivation_record_for_puzzle_hash env (inner_puzzle_hash singleton_record) of
        None \<Rightarrow> (Inl NotOwned, st)
      | Some pubkey \<Rightarrow>
     let new_puz_hash = (case new_puz_hash_opt of
                           None \<Rightarrow> tree_hash env (get_new_puzzle env) | Some h \<Rightarrow> h);
         next_full_puz_hash = host_fullpuz_hash env new_puz_hash root_hash l;
         current_inner_puzzle = puzzle_for_pk env pubkey;
         current_full_puz = create_host_fullpuz env current_inner_puzzle (root singleton_record) l
     in
     (case lp_parent_name (lineage_proof singleton_record) of
        None \<Rightarrow> (Inl AssertionError, st)
      | Some parent_name \<Rightarrow>
     (case lp_amount (lineage_proof singleton_record) of
        None \<Rightarrow> (Inl AssertionError, st)
      | Some amt \<Rightarrow>
     let current_coin = \<lparr>parent_coin_info = parent_name,
                         puzzle_hash = tree_hash env current_full_puz, amount = amt\<rparr>
     in
     (case uint32 (generation singleton_record + 1) of
        Inl e \<Rightarrow> (Inl e, st)
      | Inr gen1 \<Rightarrow>
     let new_singleton_record =
           \<lparr>coin_id = coin_name env \<lparr>parent_coin_info = coin_name env current_coin,
                                      puzzle_hash = next_full_puz_hash, amount = amt\<rparr>,
            launcher_id = l, root = root_hash, inner_puzzle_hash = new_puz_hash,
            confirmed = False, confirmed_at_height = 0,
            lineage_proof = \<lparr>lp_parent_name = Some (coin_id singleton_record),
                             lp_inner_puzzle_hash = Some new_puz_hash, lp_amount = Some amt\<rparr>,
            generation = gen1, timestamp = 0\<rparr>
     in
     if announce_new_state
     then (case announce_step env st l root_hash new_puz_hash singleton_record current_coin
                  current_inner_puzzle amt next_full_puz_hash puzzle_announcements_to_consume
                  new_singleton_record of
             (Inl e, st') \<Rightarrow> (Inl e, st')
           | (Inr (final, second, second_spend, anns), st') \<Rightarrow>
               finish_update_state_spend env st' l singleton_record parent_lineage root_hash
                 new_puz_hash current_coin current_full_puz amt final (Some (second, second_spend))
                 (Some anns) new_amount fee coin_announcements_to_consume sign
                 add_pending_singleton announce_new_state)
     else finish_update_state_spend env st l singleton_record parent_lineage root_hash
            new_puz_hash current_coin current_full_puz amt new_singleton_record None
            (case puzzle_announcements_to_consume of
               None \<Rightarrow> None | Some ref \<Rightarrow> Some (elements (heap st ref)))
            new_amount fee coin_announcements_to_consume sign add_pending_singleton
            announce_new_state)))))"


section \<open>Fork detection and rebase\<close>

text \<open>
  The two nested loops of the rebase attempt (lines 884 to 899): for every pending
  singleton, for every relevant transaction whose additions include its coin, re-author
  an update to the singleton's root with the fee of the old bundle. The first exception
  ends the loops.
\<close>

fun resubmit_for_txs ::
  "env \<Rightarrow> bytes32 \<Rightarrow> SingletonRecord \<Rightarrow> TransactionRecord list \<Rightarrow> TransactionRecord list
     \<Rightarrow> wallet_state \<Rightarrow> (error + TransactionRecord list) \<times> wallet_state" where
  "resubmit_for_txs env l singleton [] all_txs st = (Inr all_txs, st)"
| "resubmit_for_txs env l singleton (tx # txs) all_txs st =
     (if list_ex (\<lambda>c. coin_name env c = coin_id singleton) (tx_additions tx)
      then (case (case spend_bundle tx of Some sb \<Rightarrow> uint64 (fees env sb) | None \<Rightarrow> uint64 0) of
              Inl e \<Rightarrow> (Inl e, st)
            | Inr fee \<Rightarrow>
                (case create_update_state_spend env st l (Some (root singleton)) None None fee
                        None None True True False of
                   (Inl e, st') \<Rightarrow> (Inl e, st')
                 | (Inr new_txs, st') \<Rightarrow> resubmit_for_txs env l singleton txs (all_txs @ new_txs) st'))
      else resubmit_for_txs env l singleton txs all_txs st)"

fun resubmit_all ::
  "env \<Rightarrow> bytes32 \<Rightarrow> SingletonRecord list \<Rightarrow> TransactionRecord list \<Rightarrow> TransactionRecord list
     \<Rightarrow> wallet_state \<Rightarrow> (error + TransactionRecord list) \<times> wallet_state" where
  "resubmit_all env l [] relevant_dl_txs all_txs st = (Inr all_txs, st)"
| "resubmit_all env l (singleton # rest_singletons) relevant_dl_txs all_txs st =
     (case resubmit_for_txs env l singleton relevant_dl_txs all_txs st of
        (Inl e, st') \<Rightarrow> (Inl e, st')
      | (Inr all_txs', st') \<Rightarrow> resubmit_all env l rest_singletons relevant_dl_txs all_txs' st')"

definition delete_singleton_records :: "wallet_state \<Rightarrow> SingletonRecord list \<Rightarrow> wallet_state" where
  "delete_singleton_records st rs = foldl (\<lambda>s r. delete_singleton_record s (coin_id r)) st rs"

definition delete_transaction_records :: "wallet_state \<Rightarrow> TransactionRecord list \<Rightarrow> wallet_state" where
  "delete_transaction_records st txs = foldl (\<lambda>s t. delete_transaction_record s (tx_name t)) st txs"

definition root_changed_of :: "wallet_state \<Rightarrow> bytes32 \<Rightarrow> SingletonRecord list \<Rightarrow> bool" where
  "root_changed_of st parent_name full_branch =
     (case get_singleton_record st parent_name of
        None \<Rightarrow> True
      | Some parent_singleton \<Rightarrow>
          list_ex (\<lambda>s. root parent_singleton \<noteq> root s) (filter confirmed full_branch))"

definition relevant_dl_txs_of :: "wallet_state \<Rightarrow> SingletonRecord list \<Rightarrow> TransactionRecord list" where
  "relevant_dl_txs_of st unconfirmed_singletons =
     List.map_filter
       (\<lambda>singleton. case lp_parent_name (lineage_proof singleton) of
                       None \<Rightarrow> None
                     | Some parent_name \<Rightarrow> get_transaction_record st parent_name)
       unconfirmed_singletons"

definition relevant_std_txs_of :: "env \<Rightarrow> wallet_state \<Rightarrow> TransactionRecord list \<Rightarrow> TransactionRecord list" where
  "relevant_std_txs_of env st relevant_dl_txs =
     (let all_spends = List.map_filter spend_bundle relevant_dl_txs;
          all_removal_ids = set (concat (map (\<lambda>sb. map (coin_name env) (removals env sb)) all_spends));
          unconfirmed_std_txs = get_unconfirmed_for_wallet st (std_wallet_id env)
      in filter (\<lambda>tx. list_ex (\<lambda>c. coin_name env c \<in> all_removal_ids) (tx_removals tx))
           unconfirmed_std_txs)"

definition potentially_handle_resubmit ::
  "env \<Rightarrow> wallet_state \<Rightarrow> bytes32 \<Rightarrow> (error + unit) \<times> wallet_state" where
  "potentially_handle_resubmit env st l =
     (case sort_key generation (get_unconfirmed_singletons st l) of
        [] \<Rightarrow> (Inr (), st)
      | first_unconfirmed # more_unconfirmed \<Rightarrow>
     let unconfirmed_singletons = first_unconfirmed # more_unconfirmed;
         full_branch = get_all_singletons_for_launcher st l (generation first_unconfirmed)
     in
     if length unconfirmed_singletons = length full_branch
        \<and> set unconfirmed_singletons = set full_branch
     then (Inr (), st)
     else
     let st1 = log_add st InfoAttemptingRebase in
     (case lp_parent_name (lineage_proof first_unconfirmed) of
        None \<Rightarrow> (Inl AssertionError, st1)
      | Some parent_name \<Rightarrow>
     let root_changed = root_changed_of st1 parent_name full_branch;
         relevant_dl_txs = relevant_dl_txs_of st1 unconfirmed_singletons;
         relevant_std_txs = relevant_std_txs_of env st1 relevant_dl_txs;
         st2 = delete_transaction_records st1 (relevant_dl_txs @ relevant_std_txs);
         st3 = delete_singleton_records st2 unconfirmed_singletons
     in
     if \<not> root_changed
     then (case resubmit_all env l unconfirmed_singletons relevant_dl_txs [] st3 of
             (Inr all_txs, st4) \<Rightarrow> (Inr (), foldl add_pending_transaction st4 all_txs)
           | (Inl e, st4) \<Rightarrow>
               (Inr (), delete_singleton_records (log_add st4 (WarningResubmitFailed e))
                          unconfirmed_singletons))
     else (Inr (), st3)))"

section \<open>Sync: a confirmed parent spend\<close>

datatype scan = Melted | BadHint | Found bytes32 nat bytes32 bytes32

text \<open>\<^verbatim>\<open>bytes32(condition[3][i])\<close>, the memo at position \<open>i\<close>.\<close>

definition hint_at :: "pyval \<Rightarrow> nat \<Rightarrow> error + bytes32" where
  "hint_at condition i =
     (case py_getitem condition 3 of
        Inl e \<Rightarrow> Inl e
      | Inr hints \<Rightarrow> (case py_getitem hints i of Inl e \<Rightarrow> Inl e | Inr v \<Rightarrow> bytes32_of v))"

text \<open>
  The loop over the conditions (lines 768 to 782): the first \<^verbatim>\<open>CREATE_COIN\<close>
  (opcode 51) with an odd amount decides; only an \<^verbatim>\<open>IndexError\<close> of the memo reads is
  caught.
\<close>

fun scan_conditions :: "pyval list \<Rightarrow> error + scan" where
  "scan_conditions [] = Inr Melted"
| "scan_conditions (condition # conditions) =
     (case py_getitem condition 0 of
        Inl e \<Rightarrow> Inl e
      | Inr opcode \<Rightarrow>
          if opcode \<noteq> PyBytes [51] then scan_conditions conditions
          else (case py_getitem condition 2 of
                  Inl e \<Rightarrow> Inl e
                | Inr a2 \<Rightarrow>
                    (case int_from_bytes a2 of
                       Inl e \<Rightarrow> Inl e
                     | Inr n \<Rightarrow>
                         if n mod 2 \<noteq> 1 then scan_conditions conditions
                         else (case py_getitem condition 1 of
                                 Inl e \<Rightarrow> Inl e
                               | Inr a1 \<Rightarrow>
                                   (case bytes32_of a1 of
                                      Inl e \<Rightarrow> Inl e
                                    | Inr full_puzzle_hash \<Rightarrow>
                                        (case uint64 n of
                                           Inl e \<Rightarrow> Inl e
                                         | Inr amt \<Rightarrow>
                                             (case hint_at condition 1 of
                                                Inl e \<Rightarrow> if e = IndexError then Inr BadHint else Inl e
                                              | Inr root_hash \<Rightarrow>
                                                  (case hint_at condition 2 of
                                                     Inl e \<Rightarrow> if e = IndexError then Inr BadHint else Inl e
                                                   | Inr inner_hash \<Rightarrow>
                                                       Inr (Found full_puzzle_hash amt root_hash
                                                              inner_hash)))))))))"

definition singleton_removed ::
  "env \<Rightarrow> wallet_state \<Rightarrow> CoinSpend \<Rightarrow> nat \<Rightarrow> (error + unit) \<times> wallet_state" where
  "singleton_removed env st parent_spend height =
     (let parent_name = coin_name env (coin parent_spend)
      in if match_dl_singleton env (puzzle_reveal parent_spend)
         then
           (let st1 = log_add st (InfoSingletonRemoved (coin parent_spend))
            in (case get_singleton_record st1 parent_name of
                  None \<Rightarrow> (Inr (), log_add st1 (WarningNoParent parent_name))
                | Some singleton_record \<Rightarrow>
                    (case run_with_cost env (puzzle_reveal parent_spend) (solution parent_spend) of
                       Inl e \<Rightarrow> (Inl e, st1)
                     | Inr result \<Rightarrow>
                    (case py_iter result of
                       Inl e \<Rightarrow> (Inl e, st1)
                     | Inr conditions \<Rightarrow>
                    (case scan_conditions conditions of
                       Inl e \<Rightarrow> (Inl e, st1)
                     | Inr BadHint \<Rightarrow>
                         (Inr (), log_add st1 (WarningBadHint parent_name (launcher_id singleton_record)))
                     | Inr Melted \<Rightarrow>
                         (Inr (), log_add st1 (WarningMelted (launcher_id singleton_record)))
                     | Inr (Found full_puzzle_hash amt root_hash inner_hash) \<Rightarrow>
                         (let new_singleton = \<lparr>parent_coin_info = parent_name,
                                               puzzle_hash = full_puzzle_hash, amount = amt\<rparr>;
                              ts = get_timestamp_for_height env height
                          in (case uint32 (generation singleton_record + 1) of
                                Inl e \<Rightarrow> (Inl e, st1)
                              | Inr gen \<Rightarrow>
                                  (let st2 = add_singleton_record st1
                                               \<lparr>coin_id = coin_name env new_singleton,
                                                launcher_id = launcher_id singleton_record,
                                                root = root_hash, inner_puzzle_hash = inner_hash,
                                                confirmed = True, confirmed_at_height = height,
                                                lineage_proof =
                                                  \<lparr>lp_parent_name = Some parent_name,
                                                   lp_inner_puzzle_hash =
                                                     Some (host_layer_hash env inner_hash root_hash),
                                                   lp_amount = Some amt\<rparr>,
                                                generation = gen, timestamp = ts\<rparr>;
                                       st3 = add_coin_record st2
                                               \<lparr>wcr_coin = new_singleton, confirmed_block_height = height,
                                                spent_block_height = 0, spent = False, coinbase = False,
                                                wcr_wallet_id = dl_wallet_id env\<rparr>;
                                       st4 = add_interested_coin_ids st3 [coin_name env new_singleton]
                                   in potentially_handle_resubmit env st4
                                        (launcher_id singleton_record)))))))))
         else (Inr (), st))"

section \<open>Launching\<close>

definition get_launcher_coin_state :: "env \<Rightarrow> bytes32 \<Rightarrow> error + CoinState" where
  "get_launcher_coin_state env l =
     (case get_coin_state env [l] of
        [] \<Rightarrow> Inl NotAValidCoin
      | cs # _ \<Rightarrow>
          if puzzle_hash (cs_coin cs) \<noteq> tree_hash env (SINGLETON_LAUNCHER env) then Inl NotASingletonLauncher
          else if created_height cs = None then Inl NotCreated
          else if spent_height cs = None then Inl NotSpent
          else Inr cs)"

definition new_launcher_spend ::
  "env \<Rightarrow> wallet_state \<Rightarrow> CoinSpend \<Rightarrow> nat option \<Rightarrow> (error + unit) \<times> wallet_state" where
  "new_launcher_spend env st launcher_spend height_opt =
     (let l = coin_name env (coin launcher_spend)
      in (case (case height_opt of
                  Some h \<Rightarrow> Inr h
                | None \<Rightarrow>
                    (case get_launcher_coin_state env l of
                       Inl e \<Rightarrow> Inl e
                     | Inr cs \<Rightarrow> (case spent_height cs of None \<Rightarrow> Inl AssertionError | Some h \<Rightarrow> Inr h))) of
            Inl e \<Rightarrow> (Inl e, st)
          | Inr height \<Rightarrow>
         (case launch_solution_to_singleton_info env (solution launcher_spend) of
            Inl e \<Rightarrow> (Inl e, st)
          | Inr (full_puzhash, amt, root_hash, inner_puzhash) \<Rightarrow>
         (let new_singleton = \<lparr>parent_coin_info = l, puzzle_hash = full_puzhash, amount = amt\<rparr>;
              ts = get_timestamp_for_height env height
          in (case (case get_latest_singleton st l False of
                      Some singleton_record \<Rightarrow>
                        if coin_id singleton_record = coin_name env new_singleton
                           \<and> \<not> confirmed singleton_record
                        then Some (set_confirmed st (coin_id singleton_record) height ts)
                        else None
                    | None \<Rightarrow>
                        Some (add_singleton_record st
                                \<lparr>coin_id = coin_name env new_singleton, launcher_id = l,
                                 root = root_hash, inner_puzzle_hash = inner_puzhash,
                                 confirmed = True, confirmed_at_height = height,
                                 lineage_proof =
                                   \<lparr>lp_parent_name = Some l,
                                    lp_inner_puzzle_hash =
                                      Some (host_layer_hash env inner_puzhash root_hash),
                                    lp_amount = Some amt\<rparr>,
                                 generation = 0, timestamp = ts\<rparr>)) of
                None \<Rightarrow> (Inr (), log_add st (InfoAlreadyProcessed l))
              | Some st1 \<Rightarrow>
                  (let st2 = add_launcher env st1 (coin launcher_spend);
                       st3 = add_interested_puzzle_hashes st2 [l] [dl_wallet_id env];
                       st4 = add_interested_coin_ids st3 [coin_name env new_singleton];
                       st5 = add_coin_record st4
                               \<lparr>wcr_coin = new_singleton, confirmed_block_height = height,
                                spent_block_height = 0, spent = False, coinbase = False,
                                wcr_wallet_id = dl_wallet_id env\<rparr>
                   in (Inr (), st5)))))))"

definition generate_new_reporter ::
  "env \<Rightarrow> wallet_state \<Rightarrow> bytes32 \<Rightarrow> nat
     \<Rightarrow> (error + (TransactionRecord \<times> TransactionRecord \<times> bytes32)) \<times> wallet_state" where
  "generate_new_reporter env st initial_root fee =
     (case uint64 (fee + 1) of
        Inl e \<Rightarrow> (Inl e, st)
      | Inr wanted \<Rightarrow>
     (case select_coins env wanted of
        None \<Rightarrow> (Inl NotEnoughCoins, st)
      | Some coins \<Rightarrow>
     (case coins of
        [] \<Rightarrow> (Inl IndexError, st)
      | launcher_parent # _ \<Rightarrow>
     let launcher_coin = \<lparr>parent_coin_info = coin_name env launcher_parent,
                          puzzle_hash = tree_hash env (SINGLETON_LAUNCHER env), amount = 1\<rparr>;
         inner_puzzle = get_new_puzzle env;
         full_puzzle = create_host_fullpuz env inner_puzzle initial_root (coin_name env launcher_coin);
         genesis_launcher_solution =
           plist [Atom (tree_hash env full_puzzle), IntAtom 1,
                  plist [Atom initial_root, Atom (tree_hash env inner_puzzle)]];
         announcement = \<lparr>origin_info = coin_name env launcher_coin,
                         message = tree_hash env genesis_launcher_solution\<rparr>
     in
     (case std_generate_signed_transaction env 1 (tree_hash env (SINGLETON_LAUNCHER env)) fee
             (Some (coin_name env launcher_parent)) (Some coins) (Some {announcement}) None of
        Inl e \<Rightarrow> (Inl e, st)
      | Inr None \<Rightarrow> (Inl AssertionError, st)
      | Inr (Some create_launcher_tx_record) \<Rightarrow>
     (case spend_bundle create_launcher_tx_record of
        None \<Rightarrow> (Inl AssertionError, st)
      | Some launcher_funding \<Rightarrow>
     let launcher_cs = \<lparr>coin = launcher_coin, puzzle_reveal = SINGLETON_LAUNCHER env,
                        solution = genesis_launcher_solution\<rparr>;
         launcher_sb = \<lparr>coin_spends = [launcher_cs], aggregated_signature = G2Infinity\<rparr>;
         full_spend = aggregate [launcher_funding, launcher_sb];
         std_record = create_launcher_tx_record\<lparr>spend_bundle := None\<rparr>;
         dl_record = \<lparr>tx_confirmed_at_height = 0, created_at_time = time_now env,
                      to_puzzle_hash = replicate 32 2, tx_amount = 1, fee_amount = fee,
                      tx_confirmed = False, sent = 10, spend_bundle = Some full_spend,
                      tx_additions = additions env full_spend, tx_removals = removals env full_spend,
                      tx_memos = compute_memos env full_spend, wallet_id = 0,
                      tx_type = INCOMING_TX, tx_name = bundle_name env full_spend\<rparr>;
         singleton_record =
           \<lparr>coin_id = coin_name env \<lparr>parent_coin_info = coin_name env launcher_coin,
                                      puzzle_hash = tree_hash env full_puzzle, amount = 1\<rparr>,
            launcher_id = coin_name env launcher_coin, root = initial_root,
            inner_puzzle_hash = tree_hash env inner_puzzle, confirmed = False,
            confirmed_at_height = 0,
            lineage_proof = \<lparr>lp_parent_name = Some (coin_name env launcher_coin),
                             lp_inner_puzzle_hash =
                               Some (tree_hash env (create_host_layer_puzzle env inner_puzzle initial_root)),
                             lp_amount = Some 1\<rparr>,
            generation = 0, timestamp = 0\<rparr>;
         st1 = add_singleton_record st singleton_record;
         st2 = add_interested_puzzle_hashes st1 [launcher_id singleton_record] [dl_wallet_id env]
     in (Inr (dl_record, std_record, coin_name env launcher_coin), st2))))))"

section \<open>The derivation invariant\<close>

text \<open>
  Invariant 4 of the data model: the \<open>coin_id\<close> of a record is the name of the coin with
  the record's parent, the full puzzle hash of the record's inner puzzle hash, root and
  launcher, and the record's amount.
\<close>

definition derivation_ok :: "env \<Rightarrow> SingletonRecord \<Rightarrow> bool" where
  "derivation_ok env r =
     (case lp_parent_name (lineage_proof r) of
        None \<Rightarrow> False
      | Some parent \<Rightarrow>
          (case lp_amount (lineage_proof r) of
             None \<Rightarrow> False
           | Some amt \<Rightarrow>
               coin_id r = coin_name env
                             \<lparr>parent_coin_info = parent,
                              puzzle_hash = host_fullpuz_hash env (inner_puzzle_hash r) (root r)
                                              (launcher_id r),
                              amount = amt\<rparr>))"

definition store_ok :: "env \<Rightarrow> wallet_state \<Rightarrow> bool" where
  "store_ok env st = list_all (derivation_ok env) (singletons st)"

text \<open>
  What the puzzle library and the derivation index promise: hashing the full puzzle of
  an inner puzzle is hashing with the inner puzzle's hash precalculated, and the
  derivation record found for a puzzle hash holds the key of a puzzle with that hash.
\<close>

definition puzzles_coherent :: "env \<Rightarrow> bool" where
  "puzzles_coherent env =
     ((\<forall>p r l. tree_hash env (create_host_fullpuz env p r l)
                = host_fullpuz_hash env (tree_hash env p) r l)
      \<and> (\<forall>h pk. get_derivation_record_for_puzzle_hash env h = Some pk
                  \<longrightarrow> tree_hash env (puzzle_for_pk env pk) = h))"

section \<open>A test environment and scenario states\<close>

text \<open>
  Concrete collaborators for evaluating the wallet: a toy hash that mixes two byte
  strings octet by octet, puzzles that are pairs of their parts, a puzzle runner that
  returns the solution as the condition list, a standard wallet with one funding coin.
\<close>

definition mix :: "bytes \<Rightarrow> bytes \<Rightarrow> bytes" where
  "mix a b = map (\<lambda>(x, y). 3 * x + 5 * y + 1) (zip a b)"

definition toy_coin_name :: "Coin \<Rightarrow> bytes32" where
  "toy_coin_name c = map (\<lambda>b. b + of_nat (amount c)) (mix (parent_coin_info c) (puzzle_hash c))"

definition atom_hash :: "bytes \<Rightarrow> bytes32" where
  "atom_hash bs = (if length bs = 32 then bs else replicate 32 (of_nat (length bs) + 7))"

fun toy_tree_hash :: "program \<Rightarrow> bytes32" where
  "toy_tree_hash (Atom bs) = atom_hash bs"
| "toy_tree_hash (IntAtom i) = replicate 32 (of_int i)"
| "toy_tree_hash (Pair a b) = mix (toy_tree_hash a) (toy_tree_hash b)"

definition toy_fullpuz_hash :: "bytes32 \<Rightarrow> bytes32 \<Rightarrow> bytes32 \<Rightarrow> bytes32" where
  "toy_fullpuz_hash h r l = mix (mix h (atom_hash r)) (atom_hash l)"

definition toy_layer_hash :: "bytes32 \<Rightarrow> bytes32 \<Rightarrow> bytes32" where
  "toy_layer_hash h r = mix h (atom_hash r)"

fun toy_launch_solution :: "program \<Rightarrow> error + (bytes32 \<times> nat \<times> bytes32 \<times> bytes32)" where
  "toy_launch_solution (Pair (Atom f) (Pair (IntAtom a) (Pair (Pair (Atom r) (Pair (Atom i) (Atom [])))
                         (Atom [])))) =
     (if 0 \<le> a then Inr (f, nat a, r, i) else Inl ValueError)"
| "toy_launch_solution _ = Inl ValueError"

fun as_python :: "program \<Rightarrow> pyval" where
  "as_python (Atom bs) = PyBytes bs"
| "as_python (IntAtom i) = PyBytes (if i = 0 then [] else [of_int i])"
| "as_python (Pair a b) =
     (case as_python b of
        PyList xs \<Rightarrow> PyList (as_python a # xs)
      | PyBytes bs \<Rightarrow> if bs = [] then PyList [as_python a] else PyList [as_python a, PyBytes bs]
      | PyInt n \<Rightarrow> PyList [as_python a, PyInt n])"

definition toy_lineage_to_program :: "LineageProof \<Rightarrow> program" where
  "toy_lineage_to_program lp =
     plist [case lp_parent_name lp of None \<Rightarrow> nil | Some n \<Rightarrow> Atom n,
            case lp_inner_puzzle_hash lp of None \<Rightarrow> nil | Some n \<Rightarrow> Atom n,
            case lp_amount lp of None \<Rightarrow> nil | Some n \<Rightarrow> IntAtom (int n)]"

definition toy_derivation :: "bytes32 \<Rightarrow> bytes option" where
  "toy_derivation ph = (if ph = replicate 32 0x11 \<or> ph = replicate 32 0x12 then Some ph else None)"

definition toy_make_solution ::
  "AmountWithPuzzlehash list \<Rightarrow> bytes set option \<Rightarrow> bytes32 set option \<Rightarrow> bytes32 set option \<Rightarrow> program" where
  "toy_make_solution primaries ca caa paa =
     plist [nil,
            Pair (IntAtom 1)
              (plist (map (\<lambda>p. plist [IntAtom 51, Atom (puzzlehash p), IntAtom (int (pamount p)),
                                        plist (map Atom (memos p))]) primaries)),
            nil]"

definition funding_coin :: "nat \<Rightarrow> Coin" where
  "funding_coin n = \<lparr>parent_coin_info = replicate 32 0x70, puzzle_hash = replicate 32 0x71, amount = n\<rparr>"

definition toy_std_tx ::
  "nat \<Rightarrow> bytes32 \<Rightarrow> nat \<Rightarrow> bytes32 option \<Rightarrow> Coin list option \<Rightarrow> Announcement set option
     \<Rightarrow> Announcement set option \<Rightarrow> error + TransactionRecord option" where
  "toy_std_tx amt ph fee origin coins ca pa =
     Inr (Some \<lparr>tx_confirmed_at_height = 0, created_at_time = 0, to_puzzle_hash = ph,
               tx_amount = amt, fee_amount = fee, tx_confirmed = False, sent = 0,
               spend_bundle = Some \<lparr>coin_spends = [\<lparr>coin = funding_coin (amt + fee),
                                                     puzzle_reveal = Atom [3], solution = nil\<rparr>],
                                    aggregated_signature = G2Signature [2]\<rparr>,
               tx_additions = [], tx_removals = [funding_coin (amt + fee)], tx_memos = [],
               wallet_id = 1, tx_type = OUTGOING_TX, tx_name = replicate 32 0x72\<rparr>)"

definition toy_sign :: "CoinSpend list \<Rightarrow> error + SpendBundle" where
  "toy_sign css = Inr \<lparr>coin_spends = css, aggregated_signature = G2Signature [1]\<rparr>"

definition test_env :: env where
  "test_env =
     \<lparr>coin_name = toy_coin_name,
      tree_hash = toy_tree_hash,
      announcement_name = (\<lambda>a. mix (origin_info a) (atom_hash (message a))),
      host_fullpuz_hash = toy_fullpuz_hash,
      create_host_fullpuz = (\<lambda>p r l. Pair (Pair p (Atom r)) (Atom l)),
      host_layer_hash = toy_layer_hash,
      create_host_layer_puzzle = (\<lambda>p r. Pair p (Atom r)),
      launch_solution_to_singleton_info = toy_launch_solution,
      match_dl_singleton = (\<lambda>p. case p of Pair a b \<Rightarrow> True | _ \<Rightarrow> False),
      run_with_cost = (\<lambda>p s. Inr (as_python s)),
      lineage_to_program = toy_lineage_to_program,
      SINGLETON_LAUNCHER = Atom (replicate 32 0xEF),
      ACS_MU = Atom [2],
      ACS_MU_PH = replicate 32 9,
      get_coin_state = (\<lambda>ids. []),
      get_timestamp_for_height = (\<lambda>h. 1000 + h),
      get_derivation_record_for_puzzle_hash = toy_derivation,
      puzzle_for_pk = Atom,
      get_new_puzzle = Atom (replicate 32 0x12),
      get_new_puzzlehash = replicate 32 0x13,
      select_coins = (\<lambda>n. Some [funding_coin n]),
      make_solution = toy_make_solution,
      std_generate_signed_transaction = toy_std_tx,
      std_wallet_id = 1,
      dl_wallet_id = 2,
      sign_coin_spends = toy_sign,
      additions = (\<lambda>sb. []),
      removals = (\<lambda>sb. map coin (coin_spends sb)),
      fees = (\<lambda>sb. 0),
      compute_memos = (\<lambda>sb. []),
      bundle_name = (\<lambda>sb. replicate 32 (of_nat (length (coin_spends sb)))),
      time_now = 0\<rparr>"

text \<open>
  Launcher \<open>A\<close>, its genesis record (root \<open>0x50...\<close>, owned inner puzzle \<open>0x11...\<close>),
  and the states of the scenarios.
\<close>

definition launcher_coin_A :: Coin where
  "launcher_coin_A = \<lparr>parent_coin_info = replicate 32 0x01, puzzle_hash = replicate 32 0xEF, amount = 1\<rparr>"

definition launcher_A :: bytes32 where
  "launcher_A = toy_coin_name launcher_coin_A"

definition successor_of ::
  "bytes32 \<Rightarrow> bytes32 \<Rightarrow> bytes32 \<Rightarrow> nat \<Rightarrow> bool \<Rightarrow> nat \<Rightarrow> SingletonRecord" where
  "successor_of parent root_hash inner gen conf height =
     \<lparr>coin_id = toy_coin_name \<lparr>parent_coin_info = parent,
                               puzzle_hash = toy_fullpuz_hash inner root_hash launcher_A, amount = 1\<rparr>,
      launcher_id = launcher_A, root = root_hash, inner_puzzle_hash = inner,
      confirmed = conf, confirmed_at_height = height,
      lineage_proof = \<lparr>lp_parent_name = Some parent,
                       lp_inner_puzzle_hash = Some (toy_layer_hash inner root_hash),
                       lp_amount = Some 1\<rparr>,
      generation = gen, timestamp = (if conf then 1000 + height else 0)\<rparr>"

definition genesis_A :: SingletonRecord where
  "genesis_A = successor_of launcher_A (replicate 32 0x50) (replicate 32 0x11) 0 True 5"

definition empty_state :: wallet_state where
  "empty_state = \<lparr>singletons = [], launchers = [], transactions = [], coin_records = [],
                   interested_puzzle_hashes = [], interested_coin_ids = [],
                   heap = (\<lambda>_. PySetObj {}), logged = []\<rparr>"

definition genesis_state :: wallet_state where
  "genesis_state = empty_state\<lparr>singletons := [genesis_A], launchers := [(launcher_A, launcher_coin_A)]\<rparr>"

text \<open>States in which authoring must refuse: a pending genesis, a record without its
  amount, a singleton whose inner puzzle is not the wallet's.\<close>

definition pending_genesis_state :: wallet_state where
  "pending_genesis_state = empty_state\<lparr>singletons := [genesis_A\<lparr>confirmed := False, confirmed_at_height := 0, timestamp := 0\<rparr>]\<rparr>"

definition no_amount_state :: wallet_state where
  "no_amount_state =
     genesis_state\<lparr>singletons := [genesis_A\<lparr>lineage_proof := \<lparr>lp_parent_name = Some launcher_A,
                                                                 lp_inner_puzzle_hash = None,
                                                                 lp_amount = None\<rparr>\<rparr>]\<rparr>"

definition foreign_A :: SingletonRecord where
  "foreign_A = successor_of launcher_A (replicate 32 0x50) (replicate 32 0x99) 0 True 5"

definition foreign_state :: wallet_state where
  "foreign_state = genesis_state\<lparr>singletons := [foreign_A]\<rparr>"

text \<open>The genesis state with a caller's list of one announcement at address 0.\<close>

definition list_state :: wallet_state where
  "list_state =
     genesis_state\<lparr>heap := (\<lambda>_. PySetObj {})(0 := PyListObj [\<lparr>origin_info = replicate 32 0x60,
                                                                 message = [0x21]\<rparr>])\<rparr>"

text \<open>The spend of launcher \<open>A\<close> that creates the genesis coin.\<close>

definition launcher_spend_A :: CoinSpend where
  "launcher_spend_A =
     \<lparr>coin = launcher_coin_A, puzzle_reveal = Atom (replicate 32 0xEF),
      solution = plist [Atom (toy_fullpuz_hash (replicate 32 0x11) (replicate 32 0x50) launcher_A),
                        IntAtom 1, plist [Atom (replicate 32 0x50), Atom (replicate 32 0x11)]]\<rparr>"

text \<open>
  A fork of launcher \<open>A\<close>. The wallet authored an update to root \<open>0x51...\<close> with the
  ephemeral announcement: two pending records (generations 1 and 2) and their transaction
  \<open>tx_A\<close>. The chain then confirmed another successor of the genesis coin, \<open>rival_1\<close>,
  with the old root and an inner puzzle of the wallet. \<open>rebased_2\<close> is the record that
  authoring the new root on top of \<open>rival_1\<close> produces.
\<close>

definition ephemeral_1 :: SingletonRecord where
  "ephemeral_1 = successor_of (coin_id genesis_A) (replicate 32 0x51) (replicate 32 0x8C) 1 False 0"

definition final_2 :: SingletonRecord where
  "final_2 = successor_of (coin_id ephemeral_1) (replicate 32 0x51) (replicate 32 0x12) 2 False 0"

definition rival_1 :: SingletonRecord where
  "rival_1 = successor_of (coin_id genesis_A) (replicate 32 0x50) (replicate 32 0x12) 1 True 9"

definition successor_coin :: "bytes32 \<Rightarrow> bytes32 \<Rightarrow> bytes32 \<Rightarrow> Coin" where
  "successor_coin parent root_hash inner =
     \<lparr>parent_coin_info = parent, puzzle_hash = toy_fullpuz_hash inner root_hash launcher_A, amount = 1\<rparr>"

definition tx_A :: TransactionRecord where
  "tx_A =
     \<lparr>tx_confirmed_at_height = 0, created_at_time = 0, to_puzzle_hash = replicate 32 0x12,
      tx_amount = 1, fee_amount = 0, tx_confirmed = False, sent = 10,
      spend_bundle = Some \<lparr>coin_spends =
                             [\<lparr>coin = successor_coin launcher_A (replicate 32 0x50) (replicate 32 0x11),
                               puzzle_reveal = nil, solution = nil\<rparr>,
                              \<lparr>coin = successor_coin (coin_id genesis_A) (replicate 32 0x51) (replicate 32 0x8C),
                               puzzle_reveal = nil, solution = nil\<rparr>],
                           aggregated_signature = G2Signature [1]\<rparr>,
      tx_additions = [successor_coin (coin_id genesis_A) (replicate 32 0x51) (replicate 32 0x8C),
                      successor_coin (coin_id ephemeral_1) (replicate 32 0x51) (replicate 32 0x12)],
      tx_removals = [successor_coin launcher_A (replicate 32 0x50) (replicate 32 0x11),
                     successor_coin (coin_id genesis_A) (replicate 32 0x51) (replicate 32 0x8C)],
      tx_memos = [], wallet_id = 2, tx_type = OUTGOING_TX, tx_name = coin_id genesis_A\<rparr>"

definition forked_state :: wallet_state where
  "forked_state = genesis_state\<lparr>singletons := [genesis_A, ephemeral_1, final_2, rival_1],
                                transactions := [tx_A]\<rparr>"

definition rebased_2 :: SingletonRecord where
  "rebased_2 =
     \<lparr>coin_id = toy_coin_name (successor_coin (coin_id rival_1) (replicate 32 0x51) (replicate 32 0x12)),
      launcher_id = launcher_A, root = replicate 32 0x51, inner_puzzle_hash = replicate 32 0x12,
      confirmed = False, confirmed_at_height = 0,
      lineage_proof = \<lparr>lp_parent_name = Some (coin_id rival_1),
                       lp_inner_puzzle_hash = Some (replicate 32 0x12), lp_amount = Some 1\<rparr>,
      generation = 2, timestamp = 0\<rparr>"



section \<open>A store at rest\<close>

text \<open>
  The invariant behind the detector's early return: no confirmed record of the launcher
  sits at or above the generation of a pending record of that launcher.
\<close>

definition at_rest :: "wallet_state \<Rightarrow> bytes32 \<Rightarrow> bool" where
  "at_rest st l =
     list_all (\<lambda>r. launcher_id r = l \<and> confirmed r \<longrightarrow>
                 list_all (\<lambda>u. generation r < generation u) (get_unconfirmed_singletons st l))
       (singletons st)"

section \<open>The canonical successor condition\<close>

text \<open>
  The specification's words for the scan of line 768: the canonical successor is the first
  \<^verbatim>\<open>CREATE_COIN\<close> condition (opcode 51) with an odd amount. These two definitions
  follow the specification; \<open>scan_conditions\<close> above follows the source.
\<close>

definition is_odd_create_coin :: "pyval \<Rightarrow> bool" where
  "is_odd_create_coin condition =
     (case py_getitem condition 0 of
        Inl e \<Rightarrow> False
      | Inr opcode \<Rightarrow>
          opcode = PyBytes [51]
          \<and> (case py_getitem condition 2 of
                Inl e \<Rightarrow> False
              | Inr a \<Rightarrow> (case int_from_bytes a of Inl e \<Rightarrow> False | Inr n \<Rightarrow> odd n)))"

definition first_odd_create_coin :: "pyval list \<Rightarrow> pyval option" where
  "first_odd_create_coin conditions = find is_odd_create_coin conditions"

text \<open>
  The test of line 769 evaluates without raising on a condition: it has an opcode, and a
  \<^verbatim>\<open>CREATE_COIN\<close> has a second argument that \<^verbatim>\<open>int.from_bytes\<close> accepts. The
  loop evaluates the test on the conditions before the first odd \<^verbatim>\<open>CREATE_COIN\<close>.
\<close>

definition test_readable :: "pyval \<Rightarrow> bool" where
  "test_readable condition =
     (case py_getitem condition 0 of
        Inl e \<Rightarrow> False
      | Inr opcode \<Rightarrow>
          if opcode = PyBytes [51]
          then (case py_getitem condition 2 of
                  Inl e \<Rightarrow> False
                | Inr a \<Rightarrow> (case int_from_bytes a of Inl e \<Rightarrow> False | Inr n \<Rightarrow> True))
          else True)"

definition skipped_readable :: "pyval list \<Rightarrow> bool" where
  "skipped_readable conditions =
     list_all test_readable (takeWhile (\<lambda>c. \<not> is_odd_create_coin c) conditions)"

text \<open>
  Spends of the genesis coin of launcher \<open>A\<close>, confirmed at height 9. The update creates
  an even coin, then the successor with the old root and the inner puzzle \<open>0x12...\<close> (it
  is \<open>rival_1\<close>), then another odd coin. The melt creates an even coin only.
\<close>

definition genesis_spend :: "program list \<Rightarrow> CoinSpend" where
  "genesis_spend conditions =
     \<lparr>coin = successor_coin launcher_A (replicate 32 0x50) (replicate 32 0x11),
      puzzle_reveal = Pair nil nil, solution = plist conditions\<rparr>"

definition update_conditions :: "program list" where
  "update_conditions =
     [plist [IntAtom 73, IntAtom 1],
      plist [IntAtom 51, Atom (replicate 32 0x77), IntAtom 2],
      plist [IntAtom 51, Atom (toy_fullpuz_hash (replicate 32 0x12) (replicate 32 0x50) launcher_A),
             IntAtom 1, plist [Atom launcher_A, Atom (replicate 32 0x50), Atom (replicate 32 0x12)]],
      plist [IntAtom 51, Atom (replicate 32 0x78), IntAtom 3,
             plist [Atom launcher_A, Atom (replicate 32 0x53), Atom (replicate 32 0x12)]]]"

definition melt_conditions :: "program list" where
  "melt_conditions =
     [plist [IntAtom 73, IntAtom 1],
      plist [IntAtom 51, Atom (replicate 32 0x77), IntAtom 2]]"

section \<open>Evaluating the test environment\<close>

lemma env_simps:
  "coin_name test_env = toy_coin_name"
  "tree_hash test_env = toy_tree_hash"
  "announcement_name test_env = (\<lambda>a. mix (origin_info a) (atom_hash (message a)))"
  "host_fullpuz_hash test_env = toy_fullpuz_hash"
  "create_host_fullpuz test_env = (\<lambda>p r l. Pair (Pair p (Atom r)) (Atom l))"
  "host_layer_hash test_env = toy_layer_hash"
  "create_host_layer_puzzle test_env = (\<lambda>p r. Pair p (Atom r))"
  "launch_solution_to_singleton_info test_env = toy_launch_solution"
  "match_dl_singleton test_env = (\<lambda>p. case p of Pair a b \<Rightarrow> True | _ \<Rightarrow> False)"
  "run_with_cost test_env = (\<lambda>p s. Inr (as_python s))"
  "lineage_to_program test_env = toy_lineage_to_program"
  "SINGLETON_LAUNCHER test_env = Atom (replicate 32 0xEF)"
  "ACS_MU test_env = Atom [2]"
  "ACS_MU_PH test_env = replicate 32 9"
  "get_coin_state test_env = (\<lambda>ids. [])"
  "get_timestamp_for_height test_env = (\<lambda>h. 1000 + h)"
  "get_derivation_record_for_puzzle_hash test_env = toy_derivation"
  "puzzle_for_pk test_env = Atom"
  "get_new_puzzle test_env = Atom (replicate 32 0x12)"
  "get_new_puzzlehash test_env = replicate 32 0x13"
  "select_coins test_env = (\<lambda>n. Some [funding_coin n])"
  "make_solution test_env = toy_make_solution"
  "std_generate_signed_transaction test_env = toy_std_tx"
  "std_wallet_id test_env = 1"
  "dl_wallet_id test_env = 2"
  "sign_coin_spends test_env = toy_sign"
  "additions test_env = (\<lambda>sb. [])"
  "removals test_env = (\<lambda>sb. map coin (coin_spends sb))"
  "fees test_env = (\<lambda>sb. 0)"
  "compute_memos test_env = (\<lambda>sb. [])"
  "bundle_name test_env = (\<lambda>sb. replicate 32 (of_nat (length (coin_spends sb))))"
  "time_now test_env = 0"
  by (simp_all add: test_env_def)

lemma mix_replicate: "mix (replicate n a) (replicate n b) = replicate n (3 * a + 5 * b + 1)"
  by (simp add: mix_def)

lemma atom_hash_32: "atom_hash (replicate 32 a) = replicate 32 a"
  by (simp add: atom_hash_def)

lemma toy_coin_name_replicate:
  "toy_coin_name \<lparr>parent_coin_info = replicate n a, puzzle_hash = replicate n b, amount = k\<rparr>
     = replicate n (3 * a + 5 * b + 1 + of_nat k)"
  by (simp add: toy_coin_name_def mix_replicate)

lemma toy_fullpuz_hash_replicate:
  "toy_fullpuz_hash (replicate 32 h) (replicate 32 r) (replicate 32 l)
     = replicate 32 (3 * (3 * h + 5 * r + 1) + 5 * l + 1)"
  by (simp add: toy_fullpuz_hash_def mix_replicate atom_hash_32)

lemma toy_layer_hash_replicate:
  "toy_layer_hash (replicate 32 h) (replicate 32 r) = replicate 32 (3 * h + 5 * r + 1)"
  by (simp add: toy_layer_hash_def mix_replicate atom_hash_32)

lemmas toy_simps = mix_replicate atom_hash_32 toy_coin_name_replicate toy_fullpuz_hash_replicate
  toy_layer_hash_replicate

lemma launcher_A_eval: "launcher_A = replicate 32 0xB0"
  by (simp add: launcher_A_def launcher_coin_A_def toy_simps)

lemma successor_of_eval:
  "successor_of (replicate 32 p) (replicate 32 r) (replicate 32 i) gen conf height =
     \<lparr>coin_id = replicate 32 (3 * p + 5 * (3 * (3 * i + 5 * r + 1) + 5 * 0xB0 + 1) + 1 + 1),
      launcher_id = replicate 32 0xB0, root = replicate 32 r, inner_puzzle_hash = replicate 32 i,
      confirmed = conf, confirmed_at_height = height,
      lineage_proof = \<lparr>lp_parent_name = Some (replicate 32 p),
                       lp_inner_puzzle_hash = Some (replicate 32 (3 * i + 5 * r + 1)),
                       lp_amount = Some 1\<rparr>,
      generation = gen, timestamp = (if conf then 1000 + height else 0)\<rparr>"
  by (simp add: successor_of_def launcher_A_eval toy_simps)

lemma genesis_A_eval:
  "genesis_A =
     \<lparr>coin_id = replicate 32 0xC3, launcher_id = replicate 32 0xB0, root = replicate 32 0x50,
      inner_puzzle_hash = replicate 32 0x11, confirmed = True, confirmed_at_height = 5,
      lineage_proof = \<lparr>lp_parent_name = Some (replicate 32 0xB0),
                       lp_inner_puzzle_hash = Some (replicate 32 0xC4),
                       lp_amount = Some 1\<rparr>,
      generation = 0, timestamp = 1005\<rparr>"
  by (simp add: genesis_A_def launcher_A_eval successor_of_eval)

section \<open>Authoring: the precondition errors\<close>

text \<open>
  Claim C6. \<open>create_update_state_spend\<close> fails with \<open>NotTracked\<close> when the launcher has
  no latest record, with \<open>Pending\<close> when the latest record is unconfirmed, with
  \<open>InsufficientLineage\<close> when the latest record is confirmed and its lineage proof lacks
  the parent name or the amount, and with \<open>NotOwned\<close> when the latest record is
  spendable (the checks of \<open>get_spendable_singleton_info\<close> pass) and its inner puzzle
  hash has no derivation record. In each case the whole wallet state, and so the
  singleton store, is returned unchanged: no pending record was inserted.
\<close>

theorem precondition_errors:
  "(get_latest_singleton st l False = None \<longrightarrow>
      create_update_state_spend env st l rh nph na fee cac pac sg ap an = (Inl NotTracked, st))
   \<and> (\<forall>r. get_latest_singleton st l False = Some r \<and> \<not> confirmed r \<longrightarrow>
      create_update_state_spend env st l rh nph na fee cac pac sg ap an = (Inl Pending, st))
   \<and> (\<forall>r. get_latest_singleton st l False = Some r \<and> confirmed r
          \<and> (lp_parent_name (lineage_proof r) = None \<or> lp_amount (lineage_proof r) = None) \<longrightarrow>
      create_update_state_spend env st l rh nph na fee cac pac sg ap an = (Inl InsufficientLineage, st))
   \<and> (\<forall>r pl. get_spendable_singleton_info st l = Inr (r, pl)
          \<and> get_derivation_record_for_puzzle_hash env (inner_puzzle_hash r) = None \<longrightarrow>
      create_update_state_spend env st l rh nph na fee cac pac sg ap an = (Inl NotOwned, st))"
  by (auto simp add: create_update_state_spend_def get_spendable_singleton_info_def split: option.splits)

theorem precondition_errors_witness:
  "get_latest_singleton empty_state launcher_A False = None
   \<and> create_update_state_spend test_env empty_state launcher_A None None None 0 None None True True False
       = (Inl NotTracked, empty_state)
   \<and> \<not> confirmed (genesis_A\<lparr>confirmed := False, confirmed_at_height := 0, timestamp := 0\<rparr>)
   \<and> create_update_state_spend test_env pending_genesis_state launcher_A None None None 0 None None True True False
       = (Inl Pending, pending_genesis_state)
   \<and> create_update_state_spend test_env no_amount_state launcher_A None None None 0 None None True True False
       = (Inl InsufficientLineage, no_amount_state)
   \<and> get_derivation_record_for_puzzle_hash test_env (inner_puzzle_hash foreign_A) = None
   \<and> create_update_state_spend test_env foreign_state launcher_A None None None 0 None None True True False
       = (Inl NotOwned, foreign_state)"
proof -
  have e: "get_latest_singleton empty_state launcher_A False = None"
    by (simp add: get_latest_singleton_def empty_state_def)
  have p: "get_latest_singleton pending_genesis_state launcher_A False
             = Some (genesis_A\<lparr>confirmed := False, confirmed_at_height := 0, timestamp := 0\<rparr>)"
    by (simp add: get_latest_singleton_def pending_genesis_state_def empty_state_def genesis_A_eval
        launcher_A_eval)
  have n: "get_latest_singleton no_amount_state launcher_A False
             = Some (genesis_A\<lparr>lineage_proof := \<lparr>lp_parent_name = Some launcher_A,
                                                    lp_inner_puzzle_hash = None, lp_amount = None\<rparr>\<rparr>)"
    by (simp add: get_latest_singleton_def no_amount_state_def genesis_state_def empty_state_def
        genesis_A_eval launcher_A_eval)
  have f: "get_spendable_singleton_info foreign_state launcher_A
             = Inr (foreign_A, \<lparr>lp_parent_name = Some (replicate 32 0x01), lp_inner_puzzle_hash = None,
                                lp_amount = Some 1\<rparr>)"
    by (simp add: get_spendable_singleton_info_def get_latest_singleton_def foreign_state_def
        genesis_state_def empty_state_def foreign_A_def successor_of_eval launcher_A_eval
        get_singleton_record_def get_launcher_def launcher_coin_A_def)
  have d: "get_derivation_record_for_puzzle_hash test_env (inner_puzzle_hash foreign_A) = None"
    by (simp add: env_simps toy_derivation_def foreign_A_def successor_of_eval launcher_A_eval)
  show ?thesis
    using precondition_errors [of empty_state launcher_A test_env None None None 0 None None True True False]
      precondition_errors [of pending_genesis_state launcher_A test_env None None None 0 None None True True False]
      precondition_errors [of no_amount_state launcher_A test_env None None None 0 None None True True False]
      precondition_errors [of foreign_state launcher_A test_env None None None 0 None None True True False]
      e p n f d
    by (simp add: genesis_A_eval)
qed

section \<open>Authoring: the amount of the successor\<close>

lemma genesis_spendable:
  "get_spendable_singleton_info genesis_state launcher_A
     = Inr (genesis_A, \<lparr>lp_parent_name = Some (replicate 32 0x01), lp_inner_puzzle_hash = None,
                        lp_amount = Some 1\<rparr>)"
  by (simp add: get_spendable_singleton_info_def get_latest_singleton_def 
        genesis_state_def empty_state_def genesis_A_eval launcher_A_eval
        get_singleton_record_def get_launcher_def launcher_coin_A_def)

lemmas genesis_spendable_eval = genesis_spendable [unfolded launcher_A_eval genesis_A_eval]

lemmas authoring_eval = create_update_state_spend_def finish_update_state_spend_def with_fee_tx_def
  genesis_spendable_eval env_simps toy_simps
  genesis_A_eval launcher_A_eval toy_derivation_def uint32_def build_inner_sol_def Let_def
  toy_make_solution_def toy_lineage_to_program_def plist_def nil_def toy_sign_def


lemma spendable_facts:
  assumes "get_spendable_singleton_info st l = Inr (r, pl)"
  shows "get_latest_singleton st l False = Some r" and "confirmed r"
    and "\<exists>p. lp_parent_name (lineage_proof r) = Some p"
    and "\<exists>a. lp_amount (lineage_proof r) = Some a"
  using assms
  by (auto simp add: get_spendable_singleton_info_def split: option.splits if_splits)







section \<open>Authoring: what a call does\<close>

lemma heap_add_singleton_record [simp]: "heap (add_singleton_record st r) = heap st"
  by (simp add: add_singleton_record_def)

lemma announce_step_success:
  assumes "announce_step env st l root_hash nph r cc cip amt nfph pac rec
             = (Inr (final, second, sspend, anns), st1)"
  shows "generation second = generation r + 1" and "generation final = generation r + 2"
    and "confirmed second = False" and "confirmed final = confirmed rec"
    and "launcher_id second = l" and "launcher_id final = launcher_id rec"
    and "coin_id second = coin_name env (coin sspend)"
    and "parent_coin_info (coin sspend) = coin_name env cc"
    and "puzzle_hash (coin sspend)
           = tree_hash env (create_host_fullpuz env (announce_only_puzzle nph amt l root_hash) root_hash l)"
    and "\<lparr>origin_info = puzzle_hash (coin sspend), message = [0x24]\<rparr> \<in> anns"
    and "singletons st1 = singletons st"
    and "lp_parent_name (lineage_proof final) = Some (coin_id second)"
  using assms
  by (auto simp add: announce_step_def Let_def uint32_def
      split: option.splits sum.splits pyobj.splits if_splits)


lemma finish_announced_success:
  assumes "finish_update_state_spend env st l r pl rh nph cc cfp amt rec (Some (second, sspend))
             anns na fee cac sg ap an = (Inr txs, st')"
  shows "\<exists>inner_sol sb.
           build_inner_sol env l rh nph
               (if an then tree_hash env (announce_only_puzzle nph amt l rh) else nph)
               (case na of None \<Rightarrow> amt | Some n \<Rightarrow> n) fee cac anns r = Inr inner_sol
           \<and> txs \<noteq> [] \<and> spend_bundle (hd txs) = Some sb
           \<and> take 2 (coin_spends sb)
               = [\<lparr>coin = cc, puzzle_reveal = cfp,
                   solution = plist [lineage_to_program env pl, IntAtom (int amt), plist [inner_sol]]\<rparr>,
                  sspend]
           \<and> (if fee = 0 then length (coin_spends sb) = 2 \<and> length txs = 1 else length txs = 2)
           \<and> st' = (if ap then add_singleton_record (add_singleton_record st rec) second else st)"
  using assms
  by (auto simp add: finish_update_state_spend_def with_fee_tx_def aggregate_def Let_def
      split: sum.splits option.splits if_splits)


lemma singletons_add_singleton_record:
  "singletons (add_singleton_record st r) = filter (\<lambda>x. coin_id x \<noteq> coin_id r) (singletons st) @ [r]"
  by (simp add: add_singleton_record_def)

lemma cuss_spendable_error:
  "get_spendable_singleton_info st l = Inl e \<Longrightarrow>
   create_update_state_spend env st l rh nph_opt na fee cac pac sg ap an = (Inl e, st)"
  by (simp add: create_update_state_spend_def)

lemma cuss_not_owned:
  "get_spendable_singleton_info st l = Inr (r, pl) \<Longrightarrow>
   get_derivation_record_for_puzzle_hash env (inner_puzzle_hash r) = None \<Longrightarrow>
   create_update_state_spend env st l rh nph_opt na fee cac pac sg ap an = (Inl NotOwned, st)"
  by (simp add: create_update_state_spend_def)

lemma cuss_generation_error:
  assumes "get_spendable_singleton_info st l = Inr (r, pl)"
    and "get_derivation_record_for_puzzle_hash env (inner_puzzle_hash r) = Some pk"
    and "uint32 (generation r + 1) = Inl e"
  shows "create_update_state_spend env st l rh nph_opt na fee cac pac sg ap an = (Inl e, st)"
proof -
  obtain p where p: "lp_parent_name (lineage_proof r) = Some p"
    using spendable_facts(3) [OF assms(1)] by blast
  obtain amt where amt: "lp_amount (lineage_proof r) = Some amt"
    using spendable_facts(4) [OF assms(1)] by blast
  show ?thesis
    using assms p amt by (simp add: create_update_state_spend_def Let_def)
qed

lemma cuss_resolved:
  assumes "get_spendable_singleton_info st l = Inr (r, pl)"
    and "get_derivation_record_for_puzzle_hash env (inner_puzzle_hash r) = Some pk"
    and "lp_parent_name (lineage_proof r) = Some p"
    and "lp_amount (lineage_proof r) = Some amt"
    and "uint32 (generation r + 1) = Inr g"
    and "root_hash = (case rh of None \<Rightarrow> root r | Some x \<Rightarrow> x)"
    and "nph = (case nph_opt of None \<Rightarrow> tree_hash env (get_new_puzzle env) | Some h \<Rightarrow> h)"
    and "cfp = create_host_fullpuz env (puzzle_for_pk env pk) (root r) l"
    and "cc = \<lparr>parent_coin_info = p, puzzle_hash = tree_hash env cfp, amount = amt\<rparr>"
    and "nfph = host_fullpuz_hash env nph root_hash l"
    and "rec =
      \<lparr>coin_id = coin_name env \<lparr>parent_coin_info = coin_name env cc, puzzle_hash = nfph, amount = amt\<rparr>,
       launcher_id = l, root = root_hash, inner_puzzle_hash = nph,
       confirmed = False, confirmed_at_height = 0,
       lineage_proof = \<lparr>lp_parent_name = Some (coin_id r),
                        lp_inner_puzzle_hash = Some nph, lp_amount = Some amt\<rparr>,
       generation = g, timestamp = 0\<rparr>"
  shows "create_update_state_spend env st l rh nph_opt na fee cac pac sg ap an
      = (if an
         then (case announce_step env st l root_hash nph r cc (puzzle_for_pk env pk) amt nfph pac rec of
                 (Inl e, st1) \<Rightarrow> (Inl e, st1)
               | (Inr (final, second, second_spend, anns), st1) \<Rightarrow>
                   finish_update_state_spend env st1 l r pl root_hash nph cc cfp amt final
                     (Some (second, second_spend)) (Some anns) na fee cac sg ap an)
         else finish_update_state_spend env st l r pl root_hash nph cc cfp amt rec None
                (case pac of None \<Rightarrow> None | Some ref \<Rightarrow> Some (elements (heap st ref)))
                na fee cac sg ap an)"
  unfolding create_update_state_spend_def Let_def assms(6-11)
  using assms(1-5) by simp

lemma cuss_success_resolved:
  assumes "create_update_state_spend env st l rh nph_opt na fee cac pac sg ap an = (Inr txs, st')"
  obtains r pl pk p amt g where
    "get_spendable_singleton_info st l = Inr (r, pl)"
    "get_derivation_record_for_puzzle_hash env (inner_puzzle_hash r) = Some pk"
    "lp_parent_name (lineage_proof r) = Some p"
    "lp_amount (lineage_proof r) = Some amt"
    "uint32 (generation r + 1) = Inr g"
proof (cases "get_spendable_singleton_info st l")
  case (Inl e)
  then show ?thesis using assms cuss_spendable_error [OF Inl] by simp
next
  case (Inr x)
  obtain r pl where x: "x = (r, pl)" by (cases x)
  have sp: "get_spendable_singleton_info st l = Inr (r, pl)" using Inr x by simp
  obtain p where p: "lp_parent_name (lineage_proof r) = Some p"
    using spendable_facts(3) [OF sp] by blast
  obtain amt where amt: "lp_amount (lineage_proof r) = Some amt"
    using spendable_facts(4) [OF sp] by blast
  show ?thesis
  proof (cases "get_derivation_record_for_puzzle_hash env (inner_puzzle_hash r)")
    case None
    then show ?thesis using assms cuss_not_owned [OF sp None] by simp
  next
    case (Some pk)
    show ?thesis
    proof (cases "uint32 (generation r + 1)")
      case (Inl e)
      then show ?thesis using assms cuss_generation_error [OF sp Some Inl] by simp
    next
      case (Inr g)
      then show ?thesis using that sp Some p amt by blast
    qed
  qed
qed

section \<open>Authoring with the ephemeral announcement\<close>

text \<open>
  Claim C9, amended. A successful call with \<open>announce_new_state\<close> builds two unconfirmed
  records, the ephemeral one at the latest generation plus one and the final successor at
  plus two, and stores both when \<open>add_pending_singleton\<close> holds (none otherwise). The
  bundle of the first returned transaction starts with the spend of the current coin and
  the spend of the ephemeral coin; these are all its coin spends when the fee is zero,
  and with a fee the funding transaction's spends follow and a second record is returned.
  The announcement of the ephemeral coin's full puzzle hash with message \<open>$\<close> is among
  the announcements from which the inner solution of the current coin's spend is built.
\<close>

theorem announced_update:
  assumes "create_update_state_spend env st l rh nph_opt na fee cac pac sg ap True = (Inr txs, st')"
  shows "\<exists>r second final sb spend1 spend2 anns inner_sol root_hash nph amt lin.
           get_latest_singleton st l False = Some r
           \<and> generation second = generation r + 1 \<and> generation final = generation r + 2
           \<and> confirmed second = False \<and> confirmed final = False
           \<and> singletons st'
               = (if ap then singletons (add_singleton_record (add_singleton_record st final) second)
                  else singletons st)
           \<and> txs \<noteq> [] \<and> spend_bundle (hd txs) = Some sb
           \<and> take 2 (coin_spends sb) = [spend1, spend2]
           \<and> (if fee = 0 then length (coin_spends sb) = 2 \<and> length txs = 1 else length txs = 2)
           \<and> coin_id second = coin_name env (coin spend2)
           \<and> \<lparr>origin_info = puzzle_hash (coin spend2), message = [0x24]\<rparr> \<in> anns
           \<and> build_inner_sol env l root_hash nph
                 (tree_hash env (announce_only_puzzle nph amt l root_hash))
                 (case na of None \<Rightarrow> amt | Some n \<Rightarrow> n) fee cac (Some anns) r = Inr inner_sol
           \<and> solution spend1 = plist [lin, IntAtom (int amt), plist [inner_sol]]"
proof -
  obtain r pl pk p amt g where sp: "get_spendable_singleton_info st l = Inr (r, pl)"
    and pk: "get_derivation_record_for_puzzle_hash env (inner_puzzle_hash r) = Some pk"
    and p: "lp_parent_name (lineage_proof r) = Some p"
    and amt: "lp_amount (lineage_proof r) = Some amt"
    and g: "uint32 (generation r + 1) = Inr g"
    using cuss_success_resolved [OF assms] by blast
  note latest = spendable_facts(1) [OF sp]
  define root_hash where "root_hash = (case rh of None \<Rightarrow> root r | Some x \<Rightarrow> x)"
  define nph where "nph = (case nph_opt of None \<Rightarrow> tree_hash env (get_new_puzzle env) | Some h \<Rightarrow> h)"
  define cfp where "cfp = create_host_fullpuz env (puzzle_for_pk env pk) (root r) l"
  define cc where "cc = \<lparr>parent_coin_info = p, puzzle_hash = tree_hash env cfp, amount = amt\<rparr>"
  define nfph where "nfph = host_fullpuz_hash env nph root_hash l"
  define rec where "rec =
    \<lparr>coin_id = coin_name env \<lparr>parent_coin_info = coin_name env cc, puzzle_hash = nfph, amount = amt\<rparr>,
     launcher_id = l, root = root_hash, inner_puzzle_hash = nph,
     confirmed = False, confirmed_at_height = 0,
     lineage_proof = \<lparr>lp_parent_name = Some (coin_id r),
                      lp_inner_puzzle_hash = Some nph, lp_amount = Some amt\<rparr>,
     generation = g, timestamp = 0\<rparr>"
  have unfold: "create_update_state_spend env st l rh nph_opt na fee cac pac sg ap True
      = (case announce_step env st l root_hash nph r cc (puzzle_for_pk env pk) amt nfph pac rec of
           (Inl e, st1) \<Rightarrow> (Inl e, st1)
         | (Inr (final, second, second_spend, anns), st1) \<Rightarrow>
             finish_update_state_spend env st1 l r pl root_hash nph cc cfp amt final
               (Some (second, second_spend)) (Some anns) na fee cac sg ap True)"
    using cuss_resolved [OF sp pk p amt g root_hash_def nph_def cfp_def cc_def nfph_def rec_def,
        of na fee cac pac sg ap True]
    by simp
  obtain final second sspend anns st1 where
    step: "announce_step env st l root_hash nph r cc (puzzle_for_pk env pk) amt nfph pac rec
             = (Inr (final, second, sspend, anns), st1)"
    and fin: "finish_update_state_spend env st1 l r pl root_hash nph cc cfp amt final
                (Some (second, sspend)) (Some anns) na fee cac sg ap True = (Inr txs, st')"
    using assms unfolding unfold by (auto split: prod.splits sum.splits)
  note a = announce_step_success [OF step]
  obtain inner_sol sb where
    f: "build_inner_sol env l root_hash nph
          (if True then tree_hash env (announce_only_puzzle nph amt l root_hash) else nph)
          (case na of None \<Rightarrow> amt | Some n \<Rightarrow> n) fee cac (Some anns) r = Inr inner_sol"
       "txs \<noteq> []" "spend_bundle (hd txs) = Some sb"
       "take 2 (coin_spends sb)
          = [\<lparr>coin = cc, puzzle_reveal = cfp,
              solution = plist [lineage_to_program env pl, IntAtom (int amt), plist [inner_sol]]\<rparr>,
             sspend]"
       "if fee = 0 then length (coin_spends sb) = 2 \<and> length txs = 1 else length txs = 2"
       "st' = (if ap then add_singleton_record (add_singleton_record st1 final) second else st1)"
    using finish_announced_success [OF fin] by blast
  have conf: "confirmed final = False"
    using a(4) by (simp add: rec_def)
  have store: "singletons st'
      = (if ap then singletons (add_singleton_record (add_singleton_record st final) second)
         else singletons st)"
    using f(6) a(11) by (simp add: singletons_add_singleton_record)
  let ?spend1 = "\<lparr>coin = cc, puzzle_reveal = cfp,
              solution = plist [lineage_to_program env pl, IntAtom (int amt), plist [inner_sol]]\<rparr>"
  have sol: "solution ?spend1 = plist [lineage_to_program env pl, IntAtom (int amt), plist [inner_sol]]"
    by simp
  from latest a(1) a(2) a(3) conf store f(2) f(3) f(4) f(5) a(7) a(10) f(1) sol
  show ?thesis
    by (intro exI [of _ r] exI [of _ second] exI [of _ final] exI [of _ sb] exI [of _ ?spend1]
        exI [of _ sspend] exI [of _ anns] exI [of _ inner_sol] exI [of _ root_hash]
        exI [of _ nph] exI [of _ amt] exI [of _ "lineage_to_program env pl"]) simp
qed


lemmas announce_eval = authoring_eval at_rfr_def atom_hash_def announce_step_def announce_only_puzzle_def
  create_tandem_xch_tx_def toy_std_tx_def funding_coin_def aggregate_def

text \<open>
  Claim C9 says that the resulting bundle has exactly two coin spends. With a fee of 1 the
  call on the genesis state returns two records, and the first one's bundle has three.
\<close>

theorem announced_fee_counterexample:
  "(case fst (create_update_state_spend test_env genesis_state launcher_A (Some (replicate 32 0x51))
               (Some (replicate 32 0x12)) None 1 None None True True True) of
      Inl e \<Rightarrow> []
    | Inr txs \<Rightarrow> map (\<lambda>t. case spend_bundle t of None \<Rightarrow> 0 | Some sb \<Rightarrow> length (coin_spends sb)) txs)
   = [3, 0]"
  by (simp add: announce_eval)

theorem announced_update_witness:
  "\<exists>txs st'.
     create_update_state_spend test_env genesis_state launcher_A (Some (replicate 32 0x51))
         (Some (replicate 32 0x12)) None 0 None None True True True = (Inr txs, st')
     \<and> (\<exists>r second final sb spend1 spend2 anns inner_sol root_hash nph amt lin.
           get_latest_singleton genesis_state launcher_A False = Some r
           \<and> generation second = generation r + 1 \<and> generation final = generation r + 2
           \<and> confirmed second = False \<and> confirmed final = False
           \<and> singletons st'
               = (if True then singletons (add_singleton_record (add_singleton_record genesis_state final) second)
                  else singletons genesis_state)
           \<and> txs \<noteq> [] \<and> spend_bundle (hd txs) = Some sb
           \<and> take 2 (coin_spends sb) = [spend1, spend2]
           \<and> (if (0::nat) = 0 then length (coin_spends sb) = 2 \<and> length txs = 1 else length txs = 2)
           \<and> coin_id second = coin_name test_env (coin spend2)
           \<and> \<lparr>origin_info = puzzle_hash (coin spend2), message = [0x24]\<rparr> \<in> anns
           \<and> build_inner_sol test_env launcher_A root_hash nph
                 (tree_hash test_env (announce_only_puzzle nph amt launcher_A root_hash))
                 (case None of None \<Rightarrow> amt | Some n \<Rightarrow> n) 0 None (Some anns) r = Inr inner_sol
           \<and> solution spend1 = plist [lin, IntAtom (int amt), plist [inner_sol]])"
proof -
  let ?call = "create_update_state_spend test_env genesis_state launcher_A (Some (replicate 32 0x51))
         (Some (replicate 32 0x12)) None 0 None None True True True"
  have "\<not> isl (fst ?call)"
    by (simp add: announce_eval)
  then obtain txs st' where eq: "?call = (Inr txs, st')"
    by (cases ?call, cases "fst ?call") auto
  from announced_update [OF eq] eq show ?thesis
    by blast
qed

section \<open>The caller's announcements\<close>

lemma spendable_heap_update [simp]:
  "get_spendable_singleton_info (st\<lparr>heap := h\<rparr>) l = get_spendable_singleton_info st l"
  by (simp add: get_spendable_singleton_info_def get_latest_singleton_def get_singleton_record_def
      get_launcher_def cong: option.case_cong if_cong)

lemma heap_finish [simp]:
  "heap (snd (finish_update_state_spend env st l r pl rh nph cc cfp amt rec eph anns na fee cac sg ap an))
     = heap st"
  by (simp add: finish_update_state_spend_def Let_def split: sum.splits option.splits prod.splits)

lemma heap_announce_step_list:
  assumes "heap st ref = PyListObj xs"
  shows "heap (snd (announce_step env st l root_hash nph r cc cip amt nfph (Some ref) rec))
           = (heap st)(ref := PyListObj (xs @ [\<lparr>origin_info =
                  tree_hash env (create_host_fullpuz env (announce_only_puzzle nph amt l root_hash) root_hash l),
                  message = [0x24]\<rparr>]))"
  using assms
  by (simp add: announce_step_def Let_def split: sum.splits)

lemma heap_announce_step_none:
  "heap (snd (announce_step env st l root_hash nph r cc cip amt nfph None rec)) = heap st"
  by (simp add: announce_step_def Let_def split: sum.splits)

lemma heap_after_announce_step:
  "heap (snd (case announce_step env st l root_hash nph r cc cip amt nfph pac rec of
                (Inl e, st1) \<Rightarrow> (Inl e, st1)
              | (Inr (final, second, second_spend, anns), st1) \<Rightarrow>
                  finish_update_state_spend env st1 l r pl root_hash nph cc cfp amt final
                    (Some (second, second_spend)) (Some anns) na fee cac sg ap an))
     = heap (snd (announce_step env st l root_hash nph r cc cip amt nfph pac rec))"
  by (simp split: prod.splits sum.splits)

text \<open>
  Claim C10, amended. With \<open>announce_new_state\<close> and a caller-supplied list, the source
  appends the announcement of the ephemeral coin to that very list: once the
  preconditions hold (a spendable, owned singleton whose next generation fits 32 bits),
  the caller's list holds one more element after the call, whether or not the call
  succeeds afterwards. Only when the caller passes \<open>None\<close> is a new list made, and the
  heap is unchanged.
\<close>

theorem announcement_appended_in_place:
  assumes "get_spendable_singleton_info st l = Inr (r, pl)"
    and "get_derivation_record_for_puzzle_hash env (inner_puzzle_hash r) \<noteq> None"
    and "generation r + 1 < 2 ^ 32"
    and "lp_amount (lineage_proof r) = Some amt"
    and "heap st ref = PyListObj xs"
    and "root_hash = (case rh of None \<Rightarrow> root r | Some x \<Rightarrow> x)"
    and "nph = (case nph_opt of None \<Rightarrow> tree_hash env (get_new_puzzle env) | Some h \<Rightarrow> h)"
  shows "heap (snd (create_update_state_spend env st l rh nph_opt na fee cac (Some ref) sg ap True))
           = (heap st)(ref := PyListObj (xs @ [\<lparr>origin_info =
                  tree_hash env (create_host_fullpuz env (announce_only_puzzle nph amt l root_hash) root_hash l),
                  message = [0x24]\<rparr>]))
         \<and> heap (snd (create_update_state_spend env st l rh nph_opt na fee cac None sg ap True))
           = heap st"
proof -
  obtain pk where pk: "get_derivation_record_for_puzzle_hash env (inner_puzzle_hash r) = Some pk"
    using assms(2) by blast
  obtain p where p: "lp_parent_name (lineage_proof r) = Some p"
    using spendable_facts(3) [OF assms(1)] by blast
  have g: "uint32 (generation r + 1) = Inr (generation r + 1)"
    using assms(3) by (simp add: uint32_def)
  note res = cuss_resolved [OF assms(1) pk p assms(4) g assms(6) assms(7) refl refl refl refl]
  show ?thesis
    unfolding res
    by (simp add: heap_after_announce_step heap_announce_step_list [OF assms(5)]
        heap_announce_step_none)
qed


lemma list_state_spendable:
  "get_spendable_singleton_info list_state launcher_A
     = Inr (genesis_A, \<lparr>lp_parent_name = Some (replicate 32 0x01), lp_inner_puzzle_hash = None,
                        lp_amount = Some 1\<rparr>)"
  by (simp add: list_state_def genesis_spendable)

text \<open>
  Claim C10 says that the caller's structure is unchanged after the call. On the state
  with a one-element list at address 0, the list has two elements after the call.
\<close>

theorem caller_list_mutated_counterexample:
  "heap list_state 0 = PyListObj [\<lparr>origin_info = replicate 32 0x60, message = [0x21]\<rparr>]
   \<and> heap (snd (create_update_state_spend test_env list_state launcher_A (Some (replicate 32 0x51))
                  (Some (replicate 32 0x12)) None 0 None (Some 0) True True True)) 0
       = PyListObj [\<lparr>origin_info = replicate 32 0x60, message = [0x21]\<rparr>,
                    \<lparr>origin_info =
                       tree_hash test_env
                         (create_host_fullpuz test_env
                            (announce_only_puzzle (replicate 32 0x12) 1 launcher_A (replicate 32 0x51))
                            (replicate 32 0x51) launcher_A),
                     message = [0x24]\<rparr>]"
  by (simp add: list_state_def announce_eval)

theorem announcement_appended_in_place_witness:
  "get_spendable_singleton_info list_state launcher_A
     = Inr (genesis_A, \<lparr>lp_parent_name = Some (replicate 32 0x01), lp_inner_puzzle_hash = None,
                        lp_amount = Some 1\<rparr>)
   \<and> get_derivation_record_for_puzzle_hash test_env (inner_puzzle_hash genesis_A) \<noteq> None
   \<and> generation genesis_A + 1 < 2 ^ 32
   \<and> lp_amount (lineage_proof genesis_A) = Some 1
   \<and> heap list_state 0 = PyListObj [\<lparr>origin_info = replicate 32 0x60, message = [0x21]\<rparr>]
   \<and> heap (snd (create_update_state_spend test_env list_state launcher_A (Some (replicate 32 0x51))
                  (Some (replicate 32 0x12)) None 0 None (Some 0) True True True))
       = (heap list_state)
           (0 := PyListObj ([\<lparr>origin_info = replicate 32 0x60, message = [0x21]\<rparr>]
                @ [\<lparr>origin_info =
                       tree_hash test_env
                         (create_host_fullpuz test_env
                            (announce_only_puzzle (replicate 32 0x12) 1 launcher_A (replicate 32 0x51))
                            (replicate 32 0x51) launcher_A),
                     message = [0x24]\<rparr>]))
   \<and> heap (snd (create_update_state_spend test_env list_state launcher_A (Some (replicate 32 0x51))
                  (Some (replicate 32 0x12)) None 0 None None True True True))
       = heap list_state"
proof -
  have d: "get_derivation_record_for_puzzle_hash test_env (inner_puzzle_hash genesis_A) \<noteq> None"
    by (simp add: genesis_A_eval env_simps toy_derivation_def)
  have g: "generation genesis_A + 1 < 2 ^ 32"
    by (simp add: genesis_A_eval)
  have a: "lp_amount (lineage_proof genesis_A) = Some 1"
    by (simp add: genesis_A_eval)
  have h: "heap list_state 0 = PyListObj [\<lparr>origin_info = replicate 32 0x60, message = [0x21]\<rparr>]"
    by (simp add: list_state_def)
  show ?thesis
    using announcement_appended_in_place [OF list_state_spendable d g a h,
        where rh = "Some (replicate 32 0x51)" and nph_opt = "Some (replicate 32 0x12)"
        and root_hash = "replicate 32 0x51" and nph = "replicate 32 0x12"
        and na = None and fee = 0 and cac = None and sg = True and ap = True]
      list_state_spendable d g a h
    by simp
qed

section \<open>Processing a launcher spend\<close>

text \<open>
  Claim C8, amended. With the launcher's latest record in the store: when there is none,
  a confirmed record of generation 0 is inserted for the genesis coin; when it is the
  unconfirmed record of the genesis coin, it is promoted to confirmed at the observed
  height and its timestamp, and nothing else of it changes; in every other case (the
  latest record is confirmed, or is the record of another coin) the spend counts as
  already processed and only a log line is written.
\<close>

theorem launcher_spend_cases:
  assumes "launch_solution_to_singleton_info env (solution launcher_spend) = Inr (fph, amt, rt, iph)"
    and "l = coin_name env (coin launcher_spend)"
    and "new_id = coin_name env \<lparr>parent_coin_info = l, puzzle_hash = fph, amount = amt\<rparr>"
    and "ts = get_timestamp_for_height env h"
  shows "(case get_latest_singleton st l False of
            None \<Rightarrow>
              singletons (snd (new_launcher_spend env st launcher_spend (Some h)))
                = filter (\<lambda>x. coin_id x \<noteq> new_id) (singletons st)
                  @ [\<lparr>coin_id = new_id, launcher_id = l, root = rt, inner_puzzle_hash = iph,
                      confirmed = True, confirmed_at_height = h,
                      lineage_proof = \<lparr>lp_parent_name = Some l,
                                       lp_inner_puzzle_hash = Some (host_layer_hash env iph rt),
                                       lp_amount = Some amt\<rparr>,
                      generation = 0, timestamp = ts\<rparr>]
          | Some r \<Rightarrow>
              if coin_id r = new_id \<and> \<not> confirmed r
              then singletons (snd (new_launcher_spend env st launcher_spend (Some h)))
                     = map (\<lambda>x. if coin_id x = new_id
                                  then x\<lparr>confirmed := True, confirmed_at_height := h, timestamp := ts\<rparr>
                                  else x) (singletons st)
              else new_launcher_spend env st launcher_spend (Some h)
                     = (Inr (), log_add st (InfoAlreadyProcessed l)))"
  using assms
  by (simp add: new_launcher_spend_def Let_def add_singleton_record_def set_confirmed_def
      add_launcher_def add_interested_puzzle_hashes_def add_interested_coin_ids_def
      add_coin_record_def split: option.splits)

lemma launcher_spend_A_info:
  "toy_launch_solution (solution launcher_spend_A)
     = Inr (replicate 32 0xBD, 1, replicate 32 0x50, replicate 32 0x11)"
  by (simp add: launcher_spend_A_def plist_def nil_def launcher_A_eval toy_simps)

lemma launcher_spend_A_name: "toy_coin_name (coin launcher_spend_A) = replicate 32 0xB0"
  by (simp add: launcher_spend_A_def launcher_A_eval [symmetric] launcher_A_def)

text \<open>
  Claim C8 says that without a matching unconfirmed record a fresh record is inserted.
  On the genesis state, where the genesis record is confirmed at height 5, a launcher
  spend observed at height 7 leaves the store as it is.
\<close>

theorem already_processed_counterexample:
  "\<not> list_ex (\<lambda>r. coin_id r = coin_id genesis_A \<and> \<not> confirmed r) (singletons genesis_state)
   \<and> new_launcher_spend test_env genesis_state launcher_spend_A (Some 7)
       = (Inr (), log_add genesis_state (InfoAlreadyProcessed launcher_A))
   \<and> singletons (log_add genesis_state (InfoAlreadyProcessed launcher_A)) = [genesis_A]
   \<and> confirmed_at_height genesis_A = 5"
  by (simp add: new_launcher_spend_def Let_def launcher_spend_A_info launcher_spend_A_name
      get_latest_singleton_def genesis_state_def empty_state_def log_add_def genesis_A_eval
      launcher_A_eval env_simps toy_simps)


theorem launcher_spend_cases_witness:
  "launch_solution_to_singleton_info test_env (solution launcher_spend_A)
     = Inr (replicate 32 0xBD, 1, replicate 32 0x50, replicate 32 0x11)
   \<and> singletons (snd (new_launcher_spend test_env empty_state launcher_spend_A (Some 7)))
       = [genesis_A\<lparr>confirmed_at_height := 7, timestamp := 1007\<rparr>]
   \<and> singletons (snd (new_launcher_spend test_env pending_genesis_state launcher_spend_A (Some 7)))
       = [genesis_A\<lparr>confirmed_at_height := 7, timestamp := 1007\<rparr>]
   \<and> new_launcher_spend test_env genesis_state launcher_spend_A (Some 7)
       = (Inr (), log_add genesis_state (InfoAlreadyProcessed launcher_A))"
proof -
  have i: "launch_solution_to_singleton_info test_env (solution launcher_spend_A)
             = Inr (replicate 32 0xBD, 1, replicate 32 0x50, replicate 32 0x11)"
    by (simp add: env_simps launcher_spend_A_info)
  show ?thesis
    using launcher_spend_cases [OF i refl refl refl, of empty_state 7]
      launcher_spend_cases [OF i refl refl refl, of pending_genesis_state 7]
      launcher_spend_cases [OF i refl refl refl, of genesis_state 7]
      i
    by (simp add: get_latest_singleton_def empty_state_def pending_genesis_state_def
        genesis_state_def genesis_A_eval launcher_A_eval env_simps toy_simps
        launcher_spend_A_name)
qed

section \<open>Fork detection: a rebase that fails\<close>


lemma records_eval:
  "ephemeral_1 =
     \<lparr>coin_id = replicate 32 0xE6, launcher_id = replicate 32 0xB0, root = replicate 32 0x51,
      inner_puzzle_hash = replicate 32 0x8C, confirmed = False, confirmed_at_height = 0,
      lineage_proof = \<lparr>lp_parent_name = Some (replicate 32 0xC3),
                       lp_inner_puzzle_hash = Some (replicate 32 0x3A), lp_amount = Some 1\<rparr>,
      generation = 1, timestamp = 0\<rparr>"
  "final_2 =
     \<lparr>coin_id = replicate 32 0xDD, launcher_id = replicate 32 0xB0, root = replicate 32 0x51,
      inner_puzzle_hash = replicate 32 0x12, confirmed = False, confirmed_at_height = 0,
      lineage_proof = \<lparr>lp_parent_name = Some (replicate 32 0xE6),
                       lp_inner_puzzle_hash = Some (replicate 32 0xCC), lp_amount = Some 1\<rparr>,
      generation = 2, timestamp = 0\<rparr>"
  "rival_1 =
     \<lparr>coin_id = replicate 32 0x29, launcher_id = replicate 32 0xB0, root = replicate 32 0x50,
      inner_puzzle_hash = replicate 32 0x12, confirmed = True, confirmed_at_height = 9,
      lineage_proof = \<lparr>lp_parent_name = Some (replicate 32 0xC3),
                       lp_inner_puzzle_hash = Some (replicate 32 0xC7), lp_amount = Some 1\<rparr>,
      generation = 1, timestamp = 1009\<rparr>"
  by (simp_all add: ephemeral_1_def final_2_def rival_1_def genesis_A_eval successor_of_eval)


lemma successor_coin_eval:
  "successor_coin (replicate 32 p) (replicate 32 r) (replicate 32 i)
     = \<lparr>parent_coin_info = replicate 32 p,
        puzzle_hash = replicate 32 (3 * (3 * i + 5 * r + 1) + 5 * 0xB0 + 1), amount = 1\<rparr>"
  by (simp add: successor_coin_def launcher_A_eval toy_simps)

lemmas store_eval = get_unconfirmed_singletons_def get_all_singletons_for_launcher_def
  get_singleton_record_def get_latest_singleton_def get_launcher_def get_transaction_record_def
  get_unconfirmed_for_wallet_def delete_transaction_record_def delete_singleton_record_def
  delete_singleton_records_def delete_transaction_records_def add_singleton_record_def
  add_pending_transaction_def log_add_def root_changed_of_def relevant_dl_txs_of_def
  relevant_std_txs_of_def List.map_filter_def

lemma rebased_2_eval:
  "rebased_2 =
     \<lparr>coin_id = replicate 32 0xA6, launcher_id = replicate 32 0xB0, root = replicate 32 0x51,
      inner_puzzle_hash = replicate 32 0x12, confirmed = False, confirmed_at_height = 0,
      lineage_proof = \<lparr>lp_parent_name = Some (replicate 32 0x29),
                       lp_inner_puzzle_hash = Some (replicate 32 0x12), lp_amount = Some 1\<rparr>,
      generation = 2, timestamp = 0\<rparr>"
  by (simp add: rebased_2_def records_eval successor_coin_eval launcher_A_eval toy_simps)

lemmas resubmit_eval = potentially_handle_resubmit_def store_eval env_simps toy_simps
  create_update_state_spend_def finish_update_state_spend_def with_fee_tx_def
  get_spendable_singleton_info_def toy_derivation_def uint32_def uint64_def build_inner_sol_def
  Let_def toy_make_solution_def toy_lineage_to_program_def plist_def nil_def toy_sign_def
  at_rfr_def atom_hash_def

lemma forked_state_detector:
  "potentially_handle_resubmit test_env forked_state launcher_A
     = (Inr (), forked_state\<lparr>singletons := [genesis_A, rival_1, rebased_2], transactions := [],
                               logged := [InfoAttemptingRebase, WarningResubmitFailed Pending]\<rparr>)"
  by (simp add: forked_state_def genesis_state_def empty_state_def tx_A_def successor_coin_eval
      genesis_A_eval records_eval rebased_2_eval launcher_A_eval launcher_coin_A_def resubmit_eval)

text \<open>
  Claim C5 says that a failing rebase deletes every pending record it produced. In the
  forked state the roots agree, so the detector deletes the two pending records and
  their transaction and re-authors. The first re-authoring stores \<open>rebased_2\<close>; the
  second finds it as the latest record and raises \<open>Pending\<close>. The handler then deletes
  the coin ids of the old pending records once more (line 905 iterates over
  \<open>unconfirmed_singletons\<close>), so \<open>rebased_2\<close> stays in the store, with a warning in
  the log and no transaction for it in the transaction store.
\<close>

theorem failed_rebase_keeps_its_record:
  "potentially_handle_resubmit test_env forked_state launcher_A
     = (Inr (), forked_state\<lparr>singletons := [genesis_A, rival_1, rebased_2], transactions := [],
                               logged := [InfoAttemptingRebase, WarningResubmitFailed Pending]\<rparr>)
   \<and> confirmed rebased_2 = False
   \<and> list_ex (\<lambda>r. coin_id r = coin_id rebased_2) (singletons forked_state) = False"
proof (intro conjI)
  show "potentially_handle_resubmit test_env forked_state launcher_A
     = (Inr (), forked_state\<lparr>singletons := [genesis_A, rival_1, rebased_2], transactions := [],
                               logged := [InfoAttemptingRebase, WarningResubmitFailed Pending]\<rparr>)"
    by (rule forked_state_detector)
  show "confirmed rebased_2 = False" by (simp add: rebased_2_eval)
  show "list_ex (\<lambda>r. coin_id r = coin_id rebased_2) (singletons forked_state) = False"
    by (simp add: forked_state_def genesis_state_def empty_state_def genesis_A_eval records_eval
        rebased_2_eval)
qed

section \<open>Fork detection: what the detector does\<close>


lemma log_add_fields [simp]:
  "singletons (log_add st e) = singletons st"
  "transactions (log_add st e) = transactions st"
  "launchers (log_add st e) = launchers st"
  "heap (log_add st e) = heap st"
  by (simp_all add: log_add_def)

lemma log_add_reads [simp]:
  "get_singleton_record (log_add st e) = get_singleton_record st"
  "get_transaction_record (log_add st e) = get_transaction_record st"
  "get_unconfirmed_for_wallet (log_add st e) = get_unconfirmed_for_wallet st"
  "get_unconfirmed_singletons (log_add st e) = get_unconfirmed_singletons st"
  "get_latest_singleton (log_add st e) = get_latest_singleton st"
  by (simp_all add: fun_eq_iff get_singleton_record_def get_transaction_record_def
      get_unconfirmed_for_wallet_def get_unconfirmed_singletons_def get_latest_singleton_def)

lemma log_add_derived [simp]:
  "root_changed_of (log_add st e) = root_changed_of st"
  "relevant_dl_txs_of (log_add st e) = relevant_dl_txs_of st"
  "relevant_std_txs_of env (log_add st e) = relevant_std_txs_of env st"
  by (simp_all add: fun_eq_iff root_changed_of_def relevant_dl_txs_of_def relevant_std_txs_of_def
      cong: option.case_cong)

lemma delete_singleton_records_fields:
  "singletons (delete_singleton_records st rs)
     = filter (\<lambda>r. coin_id r \<notin> coin_id ` set rs) (singletons st)"
  "transactions (delete_singleton_records st rs) = transactions st"
  "launchers (delete_singleton_records st rs) = launchers st"
  "heap (delete_singleton_records st rs) = heap st"
  unfolding delete_singleton_records_def
  by (induction rs arbitrary: st; simp add: delete_singleton_record_def conj_commute)+

lemma delete_transaction_records_fields:
  "transactions (delete_transaction_records st ts)
     = filter (\<lambda>t. tx_name t \<notin> tx_name ` set ts) (transactions st)"
  "singletons (delete_transaction_records st ts) = singletons st"
  "launchers (delete_transaction_records st ts) = launchers st"
  "heap (delete_transaction_records st ts) = heap st"
  unfolding delete_transaction_records_def
  by (induction ts arbitrary: st; simp add: delete_transaction_record_def conj_commute)+

lemma phr_no_pending:
  "get_unconfirmed_singletons st l = [] \<Longrightarrow> potentially_handle_resubmit env st l = (Inr (), st)"
  by (simp add: potentially_handle_resubmit_def)

lemma phr_no_fork:
  assumes "sort_key generation (get_unconfirmed_singletons st l) = u0 # us"
    and "length (u0 # us) = length (get_all_singletons_for_launcher st l (generation u0))"
    and "set (u0 # us) = set (get_all_singletons_for_launcher st l (generation u0))"
  shows "potentially_handle_resubmit env st l = (Inr (), st)"
  using assms by (simp add: potentially_handle_resubmit_def Let_def)

lemma phr_assertion:
  assumes "sort_key generation (get_unconfirmed_singletons st l) = u0 # us"
    and "\<not> (length (u0 # us) = length (get_all_singletons_for_launcher st l (generation u0))
            \<and> set (u0 # us) = set (get_all_singletons_for_launcher st l (generation u0)))"
    and "lp_parent_name (lineage_proof u0) = None"
  shows "potentially_handle_resubmit env st l = (Inl AssertionError, log_add st InfoAttemptingRebase)"
  using assms by (auto simp add: potentially_handle_resubmit_def Let_def)

lemma phr_fork:
  assumes "sort_key generation (get_unconfirmed_singletons st l) = u0 # us"
    and "\<not> (length (u0 # us) = length (get_all_singletons_for_launcher st l (generation u0))
            \<and> set (u0 # us) = set (get_all_singletons_for_launcher st l (generation u0)))"
    and "lp_parent_name (lineage_proof u0) = Some parent_name"
    and "relevant = relevant_dl_txs_of st (u0 # us)"
    and "deleted = delete_singleton_records
                     (delete_transaction_records (log_add st InfoAttemptingRebase)
                        (relevant @ relevant_std_txs_of env st relevant))
                     (u0 # us)"
  shows "potentially_handle_resubmit env st l
           = (if root_changed_of st parent_name (get_all_singletons_for_launcher st l (generation u0))
              then (Inr (), deleted)
              else (case resubmit_all env l (u0 # us) relevant [] deleted of
                      (Inr all_txs, st4) \<Rightarrow> (Inr (), foldl add_pending_transaction st4 all_txs)
                    | (Inl e, st4) \<Rightarrow>
                        (Inr (), delete_singleton_records (log_add st4 (WarningResubmitFailed e))
                                   (u0 # us))))"
  unfolding potentially_handle_resubmit_def Let_def assms(4,5)
  using assms(1-3) by (auto simp add: get_all_singletons_for_launcher_def)








section \<open>Fork detection: running the detector twice\<close>

lemma latest_of_mem: "latest_of xs = Some m \<Longrightarrow> m \<in> set xs"
  by (induction xs arbitrary: m) (auto split: option.splits if_splits)

lemma latest_of_None: "latest_of xs = None \<longleftrightarrow> xs = []"
  by (cases xs) (auto split: option.splits)

lemma latest_of_max: "latest_of xs = Some m \<Longrightarrow> x \<in> set xs \<Longrightarrow> generation x \<le> generation m"
  by (induction xs arbitrary: m) (auto simp add: latest_of_None split: option.splits if_splits)

lemma latest_is_max:
  assumes "get_latest_singleton st l False = Some r" and "x \<in> set (singletons st)" and "launcher_id x = l"
  shows "generation x \<le> generation r"
  using assms latest_of_max [of "filter (\<lambda>r. launcher_id r = l) (singletons st)" r x]
  by (simp add: get_latest_singleton_def)

lemma sort_key_Nil: "sort_key f xs = [] \<longleftrightarrow> xs = []"
  using length_sort [of f xs] by (metis length_0_conv)

lemma sort_key_head_least:
  assumes "sort_key f xs = u0 # us" and "x \<in> set xs"
  shows "f u0 \<le> f x" and "u0 \<in> set xs"
proof -
  have s: "sorted (map f (u0 # us))" using sorted_sort_key [of f xs] assms(1) by simp
  have m: "set (u0 # us) = set xs" using set_sort [of f xs] assms(1) by simp
  show "u0 \<in> set xs" using m by auto
  have "x \<in> set (u0 # us)" using m assms(2) by simp
  then show "f u0 \<le> f x" using s by auto
qed

lemma at_rest_no_op:
  assumes "at_rest st l"
  shows "potentially_handle_resubmit env st l = (Inr (), st)"
proof (cases "sort_key generation (get_unconfirmed_singletons st l)")
  case Nil
  then have "get_unconfirmed_singletons st l = []" by (simp add: sort_key_Nil)
  then show ?thesis by (rule phr_no_pending)
next
  case (Cons u0 us)
  have least: "\<And>x. x \<in> set (get_unconfirmed_singletons st l) \<Longrightarrow> generation u0 \<le> generation x"
    using sort_key_head_least(1) [OF Cons] .
  have u0: "u0 \<in> set (get_unconfirmed_singletons st l)"
    using sort_key_head_least(2) [OF Cons] Cons
    by (metis list.set_intros(1) set_sort)
  have b: "get_all_singletons_for_launcher st l (generation u0) = get_unconfirmed_singletons st l"
    unfolding get_all_singletons_for_launcher_def get_unconfirmed_singletons_def
  proof (rule filter_cong [OF refl])
    fix r assume r: "r \<in> set (singletons st)"
    show "(launcher_id r = l \<and> generation u0 \<le> generation r) = (launcher_id r = l \<and> \<not> confirmed r)"
    proof (cases "launcher_id r = l")
      case False
      then show ?thesis by simp
    next
      case True
      show ?thesis
      proof (cases "confirmed r")
        case c: True
        have "generation r < generation u0"
          using assms r True c u0 by (auto simp add: at_rest_def list_all_iff)
        then show ?thesis using c by simp
      next
        case c: False
        have "r \<in> set (get_unconfirmed_singletons st l)"
          using r True c by (simp add: get_unconfirmed_singletons_def)
        then show ?thesis using least c True by simp
      qed
    qed
  qed
  have len: "length (u0 # us) = length (get_unconfirmed_singletons st l)"
    using length_sort [of generation "get_unconfirmed_singletons st l"] Cons by simp
  have st: "set (u0 # us) = set (get_unconfirmed_singletons st l)"
    using set_sort [of generation "get_unconfirmed_singletons st l"] Cons by simp
  show ?thesis
    by (rule phr_no_fork [OF Cons]) (simp_all only: b len st)
qed

lemma set_equal_at_rest:
  assumes "sort_key generation (get_unconfirmed_singletons st l) = u0 # us"
    and "set (u0 # us) = set (get_all_singletons_for_launcher st l (generation u0))"
  shows "at_rest st l"
  unfolding at_rest_def list_all_iff
proof (intro ballI impI)
  fix r u
  assume r: "r \<in> set (singletons st)" and rl: "launcher_id r = l \<and> confirmed r"
    and u: "u \<in> set (get_unconfirmed_singletons st l)"
  have st: "set (u0 # us) = set (get_unconfirmed_singletons st l)"
    using set_sort [of generation "get_unconfirmed_singletons st l"] assms(1) by simp
  show "generation r < generation u"
  proof (rule ccontr)
    assume "\<not> generation r < generation u"
    then have "generation u0 \<le> generation r"
      using sort_key_head_least(1) [OF assms(1) u] by simp
    then have "r \<in> set (get_all_singletons_for_launcher st l (generation u0))"
      using r rl by (simp add: get_all_singletons_for_launcher_def)
    then have "r \<in> set (get_unconfirmed_singletons st l)" using assms(2) st by simp
    then show False using rl by (simp add: get_unconfirmed_singletons_def)
  qed
qed

lemma no_pending_at_rest: "get_unconfirmed_singletons st l = [] \<Longrightarrow> at_rest st l"
  by (simp add: at_rest_def list_all_iff)

lemma at_rest_singletons: "singletons st' = singletons st \<Longrightarrow> at_rest st' l = at_rest st l"
  by (simp add: at_rest_def get_unconfirmed_singletons_def)

lemma at_rest_delete:
  "at_rest st l \<Longrightarrow> at_rest (delete_singleton_records st rs) l"
  by (auto simp add: at_rest_def list_all_iff get_unconfirmed_singletons_def
      delete_singleton_records_fields)

lemma at_rest_add:
  assumes "at_rest st l" and "get_latest_singleton st l False = Some r"
    and "launcher_id c = l" and "\<not> confirmed c" and "generation c = generation r + 1"
  shows "at_rest (add_singleton_record st c) l"
proof -
  have m: "\<And>x. x \<in> set (singletons st) \<Longrightarrow> launcher_id x = l \<Longrightarrow> generation x < generation c"
    using latest_is_max [OF assms(2)] assms(5) by fastforce
  show ?thesis
    using assms(1,3,4) m
    by (auto simp add: at_rest_def list_all_iff get_unconfirmed_singletons_def add_singleton_record_def)
qed

lemma finish_plain_effect:
  "snd (finish_update_state_spend env st l r pl rh nph cc cfp amt rec None anns na fee cac sg True an)
     = st
   \<or> snd (finish_update_state_spend env st l r pl rh nph cc cfp amt rec None anns na fee cac sg True an)
     = add_singleton_record st rec"
  by (simp add: finish_update_state_spend_def Let_def split: sum.splits)

lemma uint32_Inr: "uint32 n = Inr g \<Longrightarrow> g = n"
  by (simp add: uint32_def split: if_splits)

lemma cuss_plain_effect:
  "snd (create_update_state_spend env st l rh nph_opt na fee cac None sg True False) = st
   \<or> (\<exists>r c. get_latest_singleton st l False = Some r
          \<and> snd (create_update_state_spend env st l rh nph_opt na fee cac None sg True False)
              = add_singleton_record st c
          \<and> launcher_id c = l \<and> \<not> confirmed c \<and> generation c = generation r + 1)"
proof (cases "get_spendable_singleton_info st l")
  case (Inl e)
  then show ?thesis by (simp add: cuss_spendable_error)
next
  case (Inr x)
  obtain r pl where sp: "get_spendable_singleton_info st l = Inr (r, pl)"
    using Inr by (cases x) simp
  obtain p where p: "lp_parent_name (lineage_proof r) = Some p"
    using spendable_facts(3) [OF sp] by blast
  obtain amt where amt: "lp_amount (lineage_proof r) = Some amt"
    using spendable_facts(4) [OF sp] by blast
  show ?thesis
  proof (cases "get_derivation_record_for_puzzle_hash env (inner_puzzle_hash r)")
    case None
    then show ?thesis by (simp add: cuss_not_owned [OF sp])
  next
    case (Some pk)
    show ?thesis
    proof (cases "uint32 (generation r + 1)")
      case (Inl e)
      then show ?thesis by (simp add: cuss_generation_error [OF sp Some])
    next
      case (Inr g)
      note res = cuss_resolved [OF sp Some p amt Inr refl refl refl refl refl refl,
          of rh nph_opt na fee cac None sg True False]
      have g: "g = generation r + 1" using uint32_Inr [OF Inr] .
      show ?thesis
        unfolding res
        using finish_plain_effect spendable_facts(1) [OF sp] g
        by (simp, metis (no_types, lifting) SingletonRecord.select_convs(2,5,8))
    qed
  qed
qed

lemma at_rest_cuss:
  assumes "at_rest st l"
  shows "at_rest (snd (create_update_state_spend env st l rh nph_opt na fee cac None sg True False)) l"
  using cuss_plain_effect [of env st l rh nph_opt na fee cac sg] assms
  by (auto simp add: at_rest_add)

lemma at_rest_resubmit_for_txs:
  "at_rest st l \<Longrightarrow> at_rest (snd (resubmit_for_txs env l s txs all_txs st)) l"
proof (induction txs arbitrary: all_txs st)
  case Nil
  then show ?case by simp
next
  case (Cons tx txs)
  show ?case
  proof (cases "list_ex (\<lambda>c. coin_name env c = coin_id s) (tx_additions tx)")
    case False
    then show ?thesis using Cons by simp
  next
    case True
    show ?thesis
    proof (cases "case spend_bundle tx of Some sb \<Rightarrow> uint64 (fees env sb) | None \<Rightarrow> uint64 0")
      case (Inl e)
      then show ?thesis using True Cons.prems by simp
    next
      case (Inr fee)
      let ?c = "create_update_state_spend env st l (Some (root s)) None None fee None None True True False"
      have r: "at_rest (snd ?c) l" using at_rest_cuss [OF Cons.prems] .
      obtain res st' where c: "?c = (res, st')" by (cases ?c)
      have r': "at_rest st' l" using r c by simp
      show ?thesis
        using True Inr c r' Cons.IH [OF r']
        by (cases res) simp_all
    qed
  qed
qed

lemma at_rest_resubmit_all:
  "at_rest st l \<Longrightarrow> at_rest (snd (resubmit_all env l ss txs all_txs st)) l"
proof (induction ss arbitrary: all_txs st)
  case Nil
  then show ?case by simp
next
  case (Cons s ss)
  let ?c = "resubmit_for_txs env l s txs all_txs st"
  have r: "at_rest (snd ?c) l" using at_rest_resubmit_for_txs [OF Cons.prems] .
  obtain res st' where c: "?c = (res, st')" by (cases ?c)
  have r': "at_rest st' l" using r c by simp
  show ?case
    using c r' Cons.IH [OF r']
    by (cases res) simp_all
qed

lemma singletons_add_pending_transactions [simp]:
  "singletons (foldl add_pending_transaction st txs) = singletons st"
  by (induction txs arbitrary: st) (simp_all add: add_pending_transaction_def)

lemma deleted_no_pending:
  assumes "singletons st' = singletons st"
    and "set us = set (get_unconfirmed_singletons st l)"
  shows "get_unconfirmed_singletons (delete_singleton_records st' us) l = []"
  using assms
  by (auto simp add: get_unconfirmed_singletons_def delete_singleton_records_fields filter_empty_conv)

lemma phr_outcome:
  "(\<exists>u0 us. sort_key generation (get_unconfirmed_singletons st l) = u0 # us
       \<and> \<not> (length (u0 # us) = length (get_all_singletons_for_launcher st l (generation u0))
              \<and> set (u0 # us) = set (get_all_singletons_for_launcher st l (generation u0)))
       \<and> lp_parent_name (lineage_proof u0) = None)
     \<and> potentially_handle_resubmit env st l = (Inl AssertionError, log_add st InfoAttemptingRebase)
   \<or> fst (potentially_handle_resubmit env st l) = Inr ()
      \<and> at_rest (snd (potentially_handle_resubmit env st l)) l"
proof (cases "sort_key generation (get_unconfirmed_singletons st l)")
  case Nil
  then have n: "get_unconfirmed_singletons st l = []" by (simp add: sort_key_Nil)
  show ?thesis using phr_no_pending [OF n] no_pending_at_rest [OF n] by simp
next
  case (Cons u0 us)
  let ?branch = "get_all_singletons_for_launcher st l (generation u0)"
  have st: "set (u0 # us) = set (get_unconfirmed_singletons st l)"
    using set_sort [of generation "get_unconfirmed_singletons st l"] Cons by simp
  show ?thesis
  proof (cases "length (u0 # us) = length ?branch \<and> set (u0 # us) = set ?branch")
    case True
    have "at_rest st l" using set_equal_at_rest [OF Cons] True by simp
    then show ?thesis using at_rest_no_op by simp
  next
    case False
    show ?thesis
    proof (cases "lp_parent_name (lineage_proof u0)")
      case None
      show ?thesis using phr_assertion [OF Cons False None] Cons False None by simp
    next
      case (Some parent_name)
      let ?relevant = "relevant_dl_txs_of st (u0 # us)"
      let ?deleted = "delete_singleton_records
                     (delete_transaction_records (log_add st InfoAttemptingRebase)
                        (?relevant @ relevant_std_txs_of env st ?relevant))
                     (u0 # us)"
      note f = phr_fork [OF Cons False Some refl refl, of env]
      have d: "at_rest ?deleted l"
        by (rule no_pending_at_rest, rule deleted_no_pending [where st = st])
           (simp_all only: delete_transaction_records_fields log_add_fields st)
      show ?thesis
      proof (cases "root_changed_of st parent_name ?branch")
        case True
        then show ?thesis using f d by simp
      next
        case False
        let ?c = "resubmit_all env l (u0 # us) ?relevant [] ?deleted"
        have r: "at_rest (snd ?c) l" using at_rest_resubmit_all [OF d] .
        obtain res st4 where c: "?c = (res, st4)" by (cases ?c)
        have r4: "at_rest st4 l" using r c by simp
        show ?thesis
        proof (cases res)
          case (Inl e)
          have "at_rest (delete_singleton_records (log_add st4 (WarningResubmitFailed e)) (u0 # us)) l"
            by (rule at_rest_delete) (simp add: at_rest_singletons [of _ st4] r4)
          then show ?thesis using f False c Inl by simp
        next
          case (Inr all_txs)
          have "at_rest (foldl add_pending_transaction st4 all_txs) l"
            by (simp add: at_rest_singletons [of _ st4] r4)
          then show ?thesis using f False c Inr by simp
        qed
      qed
    qed
  qed
qed


lemma log_add_branch [simp]:
  "get_all_singletons_for_launcher (log_add st e) = get_all_singletons_for_launcher st"
  by (simp add: fun_eq_iff get_all_singletons_for_launcher_def)

lemma phr_twice:
  "singletons (snd (potentially_handle_resubmit env' (snd (potentially_handle_resubmit env st l)) l))
     = singletons (snd (potentially_handle_resubmit env st l))
   \<and> transactions (snd (potentially_handle_resubmit env' (snd (potentially_handle_resubmit env st l)) l))
     = transactions (snd (potentially_handle_resubmit env st l))"
proof -
  consider
    (assert) u0 us where "sort_key generation (get_unconfirmed_singletons st l) = u0 # us"
      and "\<not> (length (u0 # us) = length (get_all_singletons_for_launcher st l (generation u0))
              \<and> set (u0 # us) = set (get_all_singletons_for_launcher st l (generation u0)))"
      and "lp_parent_name (lineage_proof u0) = None"
      and "potentially_handle_resubmit env st l = (Inl AssertionError, log_add st InfoAttemptingRebase)"
    | (rest) "at_rest (snd (potentially_handle_resubmit env st l)) l"
    using phr_outcome [of st l env] by blast
  then show ?thesis
  proof cases
    case assert
    have "potentially_handle_resubmit env' (log_add st InfoAttemptingRebase) l
            = (Inl AssertionError, log_add (log_add st InfoAttemptingRebase) InfoAttemptingRebase)"
      by (rule phr_assertion [where ?u0.0 = u0 and us = us]) (use assert(1-3) in simp_all)
    then show ?thesis by (simp add: assert(4))
  next
    case rest
    show ?thesis by (simp add: at_rest_no_op [OF rest])
  qed
qed

text \<open>
  Claim C7. Running the detector a second time, right after a first run for the same
  launcher, leaves the singleton store and the transaction store as the first run left
  them; when the first run returned normally the second run returns the very state it was
  given. A run on a state where the launcher has no pending record, or where the pending
  records are as a set the whole branch from the first pending generation onward, returns
  that state unchanged. (A first run that stops at the assertion of line 846 has only
  written a log line, and so does the second.)
\<close>

theorem detector_fixpoint:
  "singletons (snd (potentially_handle_resubmit env' (snd (potentially_handle_resubmit env st l)) l))
     = singletons (snd (potentially_handle_resubmit env st l))
   \<and> transactions (snd (potentially_handle_resubmit env' (snd (potentially_handle_resubmit env st l)) l))
     = transactions (snd (potentially_handle_resubmit env st l))
   \<and> (fst (potentially_handle_resubmit env st l) = Inr ()
        \<longrightarrow> potentially_handle_resubmit env' (snd (potentially_handle_resubmit env st l)) l
              = (Inr (), snd (potentially_handle_resubmit env st l)))
   \<and> (get_unconfirmed_singletons st l = []
        \<longrightarrow> potentially_handle_resubmit env st l = (Inr (), st))
   \<and> (\<forall>u0 us. sort_key generation (get_unconfirmed_singletons st l) = u0 # us
         \<and> set (u0 # us) = set (get_all_singletons_for_launcher st l (generation u0))
        \<longrightarrow> potentially_handle_resubmit env st l = (Inr (), st))"
proof (intro conjI impI allI)
  show "singletons (snd (potentially_handle_resubmit env' (snd (potentially_handle_resubmit env st l)) l))
     = singletons (snd (potentially_handle_resubmit env st l))"
    using phr_twice by blast
  show "transactions (snd (potentially_handle_resubmit env' (snd (potentially_handle_resubmit env st l)) l))
     = transactions (snd (potentially_handle_resubmit env st l))"
    using phr_twice by blast
next
  assume "fst (potentially_handle_resubmit env st l) = Inr ()"
  then have "at_rest (snd (potentially_handle_resubmit env st l)) l"
    using phr_outcome [of st l env] by auto
  then show "potentially_handle_resubmit env' (snd (potentially_handle_resubmit env st l)) l
              = (Inr (), snd (potentially_handle_resubmit env st l))"
    by (rule at_rest_no_op)
next
  assume "get_unconfirmed_singletons st l = []"
  then show "potentially_handle_resubmit env st l = (Inr (), st)" by (rule phr_no_pending)
next
  fix u0 us
  assume "sort_key generation (get_unconfirmed_singletons st l) = u0 # us
         \<and> set (u0 # us) = set (get_all_singletons_for_launcher st l (generation u0))"
  then have "at_rest st l" using set_equal_at_rest by blast
  then show "potentially_handle_resubmit env st l = (Inr (), st)" by (rule at_rest_no_op)
qed


theorem detector_fixpoint_witness:
  "fst (potentially_handle_resubmit test_env forked_state launcher_A) = Inr ()
   \<and> potentially_handle_resubmit test_env
        (snd (potentially_handle_resubmit test_env forked_state launcher_A)) launcher_A
      = (Inr (), forked_state\<lparr>singletons := [genesis_A, rival_1, rebased_2], transactions := [],
                                logged := [InfoAttemptingRebase, WarningResubmitFailed Pending]\<rparr>)
   \<and> get_unconfirmed_singletons genesis_state launcher_A = []
   \<and> potentially_handle_resubmit test_env genesis_state launcher_A = (Inr (), genesis_state)
   \<and> sort_key generation (get_unconfirmed_singletons pending_genesis_state launcher_A)
      = [genesis_A\<lparr>confirmed := False, confirmed_at_height := 0, timestamp := 0\<rparr>]
   \<and> get_all_singletons_for_launcher pending_genesis_state launcher_A 0
      = [genesis_A\<lparr>confirmed := False, confirmed_at_height := 0, timestamp := 0\<rparr>]
   \<and> potentially_handle_resubmit test_env pending_genesis_state launcher_A
      = (Inr (), pending_genesis_state)"
proof -
  have f: "fst (potentially_handle_resubmit test_env forked_state launcher_A) = Inr ()"
    by (simp add: forked_state_detector)
  have g: "get_unconfirmed_singletons genesis_state launcher_A = []"
    by (simp add: get_unconfirmed_singletons_def genesis_state_def empty_state_def genesis_A_eval
        launcher_A_eval)
  have p: "sort_key generation (get_unconfirmed_singletons pending_genesis_state launcher_A)
             = [genesis_A\<lparr>confirmed := False, confirmed_at_height := 0, timestamp := 0\<rparr>]"
    by (simp add: get_unconfirmed_singletons_def pending_genesis_state_def empty_state_def
        genesis_A_eval launcher_A_eval)
  have b: "get_all_singletons_for_launcher pending_genesis_state launcher_A 0
             = [genesis_A\<lparr>confirmed := False, confirmed_at_height := 0, timestamp := 0\<rparr>]"
    by (simp add: get_all_singletons_for_launcher_def pending_genesis_state_def empty_state_def
        genesis_A_eval launcher_A_eval)
  have z: "generation (genesis_A\<lparr>confirmed := False, confirmed_at_height := 0, timestamp := 0\<rparr>) = 0"
    by (simp add: genesis_A_eval)
  note t1 = detector_fixpoint [where env = test_env and env' = test_env and st = forked_state
      and l = launcher_A]
  note t2 = detector_fixpoint [where env = test_env and env' = test_env and st = genesis_state
      and l = launcher_A]
  note t3 = detector_fixpoint [where env = test_env and env' = test_env and st = pending_genesis_state
      and l = launcher_A]
  have r1: "potentially_handle_resubmit test_env
        (snd (potentially_handle_resubmit test_env forked_state launcher_A)) launcher_A
      = (Inr (), snd (potentially_handle_resubmit test_env forked_state launcher_A))"
    using t1 f by blast
  have r2: "potentially_handle_resubmit test_env genesis_state launcher_A = (Inr (), genesis_state)"
    using t2 g by blast
  have r3: "potentially_handle_resubmit test_env pending_genesis_state launcher_A
      = (Inr (), pending_genesis_state)"
    using t3 p b z by (metis (no_types, lifting))
  show ?thesis
    using f r1 r2 r3 g p b by (simp only: forked_state_detector snd_conv simp_thms)
qed

section \<open>Sync: the successor of a confirmed spend\<close>

lemma scan_skip:
  assumes "test_readable c" and "\<not> is_odd_create_coin c"
  shows "scan_conditions (c # cs) = scan_conditions cs"
  using assms
  by (auto simp add: test_readable_def is_odd_create_coin_def odd_iff_mod_2_eq_one
      split: sum.splits if_splits)

lemma scan_melted:
  "skipped_readable cs \<Longrightarrow> first_odd_create_coin cs = None \<Longrightarrow> scan_conditions cs = Inr Melted"
proof (induction cs)
  case Nil
  then show ?case by simp
next
  case (Cons c cs)
  have n: "\<not> is_odd_create_coin c" using Cons.prems(2)
    by (auto simp add: first_odd_create_coin_def split: if_splits)
  have r: "test_readable c" "skipped_readable cs"
    using Cons.prems(1) n by (simp_all add: skipped_readable_def)
  have f: "first_odd_create_coin cs = None"
    using Cons.prems(2) n by (simp add: first_odd_create_coin_def)
  show ?case using scan_skip [OF r(1) n] Cons.IH [OF r(2) f] by simp
qed

lemma scan_at_odd:
  assumes "is_odd_create_coin c"
  shows "\<exists>a n. py_getitem c 0 = Inr (PyBytes [51]) \<and> py_getitem c 2 = Inr a
           \<and> int_from_bytes a = Inr n \<and> n mod 2 = 1"
  using assms
  by (auto simp add: is_odd_create_coin_def odd_iff_mod_2_eq_one split: sum.splits)

lemma scan_found_here:
  assumes "is_odd_create_coin c"
    and "py_getitem c 1 = Inr a1" and "bytes32_of a1 = Inr fph"
    and "py_getitem c 2 = Inr a2" and "int_from_bytes a2 = Inr n" and "uint64 n = Inr amt"
    and "hint_at c 1 = Inr rt" and "hint_at c 2 = Inr iph"
  shows "scan_conditions (c # cs) = Inr (Found fph amt rt iph)"
  using scan_at_odd [OF assms(1)] assms(2-8) by auto

lemma scan_found:
  assumes "skipped_readable cs" and "first_odd_create_coin cs = Some c"
    and "py_getitem c 1 = Inr a1" and "bytes32_of a1 = Inr fph"
    and "py_getitem c 2 = Inr a2" and "int_from_bytes a2 = Inr n" and "uint64 n = Inr amt"
    and "hint_at c 1 = Inr rt" and "hint_at c 2 = Inr iph"
  shows "scan_conditions cs = Inr (Found fph amt rt iph)"
  using assms(1,2)
proof (induction cs)
  case Nil
  then show ?case by (simp add: first_odd_create_coin_def)
next
  case (Cons x xs)
  show ?case
  proof (cases "is_odd_create_coin x")
    case True
    then have "x = c" using Cons.prems(2) by (simp add: first_odd_create_coin_def)
    then show ?thesis using scan_found_here [OF _ assms(3-9)] True by simp
  next
    case False
    have r: "test_readable x" "skipped_readable xs"
      using Cons.prems(1) False by (simp_all add: skipped_readable_def)
    have f: "first_odd_create_coin xs = Some c"
      using Cons.prems(2) False by (simp add: first_odd_create_coin_def)
    show ?thesis using scan_skip [OF r(1) False] Cons.IH [OF r(2) f] by simp
  qed
qed

lemma singleton_removed_scan:
  assumes "match_dl_singleton env (puzzle_reveal parent_spend)"
    and "get_singleton_record st (coin_name env (coin parent_spend)) = Some parent_record"
    and "run_with_cost env (puzzle_reveal parent_spend) (solution parent_spend) = Inr result"
    and "py_iter result = Inr conditions"
    and "st1 = log_add st (InfoSingletonRemoved (coin parent_spend))"
  shows "scan_conditions conditions = Inr Melted \<Longrightarrow>
           singleton_removed env st parent_spend height
             = (Inr (), log_add st1 (WarningMelted (launcher_id parent_record)))"
    and "scan_conditions conditions = Inr BadHint \<Longrightarrow>
           singleton_removed env st parent_spend height
             = (Inr (), log_add st1 (WarningBadHint (coin_name env (coin parent_spend))
                                       (launcher_id parent_record)))"
    and "scan_conditions conditions = Inr (Found fph amt rt iph) \<Longrightarrow>
         generation parent_record + 1 < 2 ^ 32 \<Longrightarrow>
           singleton_removed env st parent_spend height
             = potentially_handle_resubmit env
                 (add_interested_coin_ids
                    (add_coin_record
                       (add_singleton_record st1
                          \<lparr>coin_id = coin_name env \<lparr>parent_coin_info = coin_name env (coin parent_spend),
                                                    puzzle_hash = fph, amount = amt\<rparr>,
                           launcher_id = launcher_id parent_record, root = rt, inner_puzzle_hash = iph,
                           confirmed = True, confirmed_at_height = height,
                           lineage_proof = \<lparr>lp_parent_name = Some (coin_name env (coin parent_spend)),
                                            lp_inner_puzzle_hash = Some (host_layer_hash env iph rt),
                                            lp_amount = Some amt\<rparr>,
                           generation = generation parent_record + 1,
                           timestamp = get_timestamp_for_height env height\<rparr>)
                       \<lparr>wcr_coin = \<lparr>parent_coin_info = coin_name env (coin parent_spend),
                                     puzzle_hash = fph, amount = amt\<rparr>,
                        confirmed_block_height = height, spent_block_height = 0, spent = False,
                        coinbase = False, wcr_wallet_id = dl_wallet_id env\<rparr>)
                    [coin_name env \<lparr>parent_coin_info = coin_name env (coin parent_spend),
                                    puzzle_hash = fph, amount = amt\<rparr>])
                 (launcher_id parent_record)"
  unfolding singleton_removed_def Let_def assms(5)
  using assms(1-4) by (simp_all add: uint32_def)


lemma find_replaced:
  "f x = k \<Longrightarrow> find (\<lambda>r. f r = k) (filter (\<lambda>r. f r \<noteq> k) xs @ [x]) = Some x"
  by (induction xs) simp_all

lemma get_latest_log_add [simp]:
  "get_latest_singleton (log_add st e) = get_latest_singleton st"
  by (simp add: fun_eq_iff get_latest_singleton_def)

text \<open>
  Claim C2. Let the puzzle of a confirmed parent spend match the DataLayer singleton, let
  the store track a record for the spent coin, and let the test of the loop evaluate on
  the conditions it visits. If no \<^verbatim>\<open>CREATE_COIN\<close> condition has an odd amount, the
  wallet logs the melt and returns: the singleton store is unchanged and the latest record
  of the launcher is the one it was. If the first odd \<^verbatim>\<open>CREATE_COIN\<close> condition reads
  as a 32-byte first argument, a 64-bit amount and 32-byte memos at positions 1 and 2 (and
  the next generation fits 32 bits), the wallet inserts the record built from exactly
  these values, confirmed at the given height with the parent's generation plus one, in
  place of any record with the same coin id, and then runs the fork detector.
\<close>

theorem successor_from_first_odd_create_coin:
  assumes "match_dl_singleton env (puzzle_reveal parent_spend)"
    and "parent_name = coin_name env (coin parent_spend)"
    and "get_singleton_record st parent_name = Some parent_record"
    and "run_with_cost env (puzzle_reveal parent_spend) (solution parent_spend) = Inr result"
    and "py_iter result = Inr conditions"
    and "skipped_readable conditions"
    and "st1 = log_add st (InfoSingletonRemoved (coin parent_spend))"
  shows
    "(first_odd_create_coin conditions = None \<longrightarrow>
        singleton_removed env st parent_spend height
          = (Inr (), log_add st1 (WarningMelted (launcher_id parent_record)))
        \<and> singletons (snd (singleton_removed env st parent_spend height)) = singletons st
        \<and> get_latest_singleton (snd (singleton_removed env st parent_spend height))
              (launcher_id parent_record) False
            = get_latest_singleton st (launcher_id parent_record) False)
     \<and> (\<forall>c a1 a2 full_puzzle_hash amt root_hash inner_hash.
          first_odd_create_coin conditions = Some c
          \<and> py_getitem c 1 = Inr a1 \<and> bytes32_of a1 = Inr full_puzzle_hash
          \<and> py_getitem c 2 = Inr a2 \<and> int_from_bytes a2 = Inr amt \<and> amt < 2 ^ 64
          \<and> hint_at c 1 = Inr root_hash \<and> hint_at c 2 = Inr inner_hash
          \<and> generation parent_record + 1 < 2 ^ 32
          \<longrightarrow>
          (let new_singleton = \<lparr>parent_coin_info = parent_name, puzzle_hash = full_puzzle_hash,
                                amount = amt\<rparr>;
               successor =
                 \<lparr>coin_id = coin_name env new_singleton,
                  launcher_id = launcher_id parent_record, root = root_hash,
                  inner_puzzle_hash = inner_hash,
                  confirmed = True, confirmed_at_height = height,
                  lineage_proof = \<lparr>lp_parent_name = Some parent_name,
                                   lp_inner_puzzle_hash = Some (host_layer_hash env inner_hash root_hash),
                                   lp_amount = Some amt\<rparr>,
                  generation = generation parent_record + 1,
                  timestamp = get_timestamp_for_height env height\<rparr>;
               st4 = add_interested_coin_ids
                       (add_coin_record (add_singleton_record st1 successor)
                          \<lparr>wcr_coin = new_singleton, confirmed_block_height = height,
                           spent_block_height = 0, spent = False, coinbase = False,
                           wcr_wallet_id = dl_wallet_id env\<rparr>)
                       [coin_name env new_singleton]
           in singleton_removed env st parent_spend height
                = potentially_handle_resubmit env st4 (launcher_id parent_record)
              \<and> singletons st4
                  = filter (\<lambda>r. coin_id r \<noteq> coin_id successor) (singletons st) @ [successor]
              \<and> get_singleton_record st4 (coin_id successor) = Some successor))"
proof (intro conjI impI allI)
  assume n: "first_odd_create_coin conditions = None"
  have m: "scan_conditions conditions = Inr Melted" using scan_melted [OF assms(6) n] .
  note r = singleton_removed_scan(1) [OF assms(1) assms(3) [unfolded assms(2)] assms(4) assms(5) assms(7) m]
  show "singleton_removed env st parent_spend height
          = (Inr (), log_add st1 (WarningMelted (launcher_id parent_record)))"
    using r .
  show "singletons (snd (singleton_removed env st parent_spend height)) = singletons st"
    by (simp add: r assms(7))
  show "get_latest_singleton (snd (singleton_removed env st parent_spend height))
              (launcher_id parent_record) False
            = get_latest_singleton st (launcher_id parent_record) False"
    by (simp add: r assms(7))
next
  fix c a1 a2 full_puzzle_hash amt root_hash inner_hash
  assume a: "first_odd_create_coin conditions = Some c
          \<and> py_getitem c 1 = Inr a1 \<and> bytes32_of a1 = Inr full_puzzle_hash
          \<and> py_getitem c 2 = Inr a2 \<and> int_from_bytes a2 = Inr amt \<and> amt < 2 ^ 64
          \<and> hint_at c 1 = Inr root_hash \<and> hint_at c 2 = Inr inner_hash
          \<and> generation parent_record + 1 < 2 ^ 32"
  have u: "uint64 amt = Inr amt" using a by (simp add: uint64_def)
  have f: "scan_conditions conditions = Inr (Found full_puzzle_hash amt root_hash inner_hash)"
    using scan_found [OF assms(6), of c a1 full_puzzle_hash a2 amt amt root_hash inner_hash] a u
    by blast
  have g: "generation parent_record + 1 < 2 ^ 32" using a by blast
  note r = singleton_removed_scan(3) [OF assms(1) assms(3) [unfolded assms(2)] assms(4) assms(5)
      assms(7) f g, of height]
  show "let new_singleton = \<lparr>parent_coin_info = parent_name, puzzle_hash = full_puzzle_hash,
                                amount = amt\<rparr>;
               successor =
                 \<lparr>coin_id = coin_name env new_singleton,
                  launcher_id = launcher_id parent_record, root = root_hash,
                  inner_puzzle_hash = inner_hash,
                  confirmed = True, confirmed_at_height = height,
                  lineage_proof = \<lparr>lp_parent_name = Some parent_name,
                                   lp_inner_puzzle_hash = Some (host_layer_hash env inner_hash root_hash),
                                   lp_amount = Some amt\<rparr>,
                  generation = generation parent_record + 1,
                  timestamp = get_timestamp_for_height env height\<rparr>;
               st4 = add_interested_coin_ids
                       (add_coin_record (add_singleton_record st1 successor)
                          \<lparr>wcr_coin = new_singleton, confirmed_block_height = height,
                           spent_block_height = 0, spent = False, coinbase = False,
                           wcr_wallet_id = dl_wallet_id env\<rparr>)
                       [coin_name env new_singleton]
           in singleton_removed env st parent_spend height
                = potentially_handle_resubmit env st4 (launcher_id parent_record)
              \<and> singletons st4
                  = filter (\<lambda>r. coin_id r \<noteq> coin_id successor) (singletons st) @ [successor]
              \<and> get_singleton_record st4 (coin_id successor) = Some successor"
    unfolding Let_def assms(2)
    by (simp add: r assms(7) add_interested_coin_ids_def add_coin_record_def add_singleton_record_def
        get_singleton_record_def find_replaced)
qed


lemma conditions_eval:
  "as_python (plist update_conditions)
     = PyList [PyList [PyBytes [73], PyBytes [1]],
               PyList [PyBytes [51], PyBytes (replicate 32 0x77), PyBytes [2]],
               PyList [PyBytes [51], PyBytes (replicate 32 0xC6), PyBytes [1],
                       PyList [PyBytes (replicate 32 0xB0), PyBytes (replicate 32 0x50),
                               PyBytes (replicate 32 0x12)]],
               PyList [PyBytes [51], PyBytes (replicate 32 0x78), PyBytes [3],
                       PyList [PyBytes (replicate 32 0xB0), PyBytes (replicate 32 0x53),
                               PyBytes (replicate 32 0x12)]]]"
  "as_python (plist melt_conditions)
     = PyList [PyList [PyBytes [73], PyBytes [1]],
               PyList [PyBytes [51], PyBytes (replicate 32 0x77), PyBytes [2]]]"
  by (simp_all add: update_conditions_def melt_conditions_def plist_def nil_def launcher_A_eval
      toy_simps)

lemma create_coin_tests:
  "is_odd_create_coin (PyList [PyBytes [73], PyBytes [1]]) = False"
  "is_odd_create_coin (PyList [PyBytes [51], PyBytes b, PyBytes [2]]) = False"
  "is_odd_create_coin (PyList [PyBytes [51], PyBytes b, PyBytes [1], m]) = True"
  "test_readable (PyList [PyBytes [73], PyBytes [1]]) = True"
  "test_readable (PyList [PyBytes [51], PyBytes b, PyBytes [2]]) = True"
  by (simp_all add: is_odd_create_coin_def test_readable_def big_endian_def)


lemma genesis_spend_coin:
  "toy_coin_name (coin (genesis_spend cs)) = replicate 32 0xC3"
  "puzzle_reveal (genesis_spend cs) = Pair nil nil"
  "solution (genesis_spend cs) = plist cs"
  "coin (genesis_spend cs) = \<lparr>parent_coin_info = replicate 32 0xB0, puzzle_hash = replicate 32 0xBD,
                               amount = 1\<rparr>"
  by (simp_all add: genesis_spend_def successor_coin_eval launcher_A_eval toy_simps)

theorem successor_from_first_odd_create_coin_witness:
  "singleton_removed test_env genesis_state (genesis_spend update_conditions) 9
     = (Inr (), genesis_state\<lparr>singletons := [genesis_A, rival_1],
                  coin_records := [\<lparr>wcr_coin = \<lparr>parent_coin_info = replicate 32 0xC3,
                                                 puzzle_hash = replicate 32 0xC6, amount = 1\<rparr>,
                                    confirmed_block_height = 9, spent_block_height = 0, spent = False,
                                    coinbase = False, wcr_wallet_id = 2\<rparr>],
                  interested_coin_ids := [replicate 32 0x29],
                  logged := [InfoSingletonRemoved (coin (genesis_spend update_conditions))]\<rparr>)
   \<and> singleton_removed test_env genesis_state (genesis_spend melt_conditions) 9
     = (Inr (), genesis_state\<lparr>logged := [InfoSingletonRemoved (coin (genesis_spend melt_conditions)),
                                          WarningMelted launcher_A]\<rparr>)
   \<and> get_latest_singleton (snd (singleton_removed test_env genesis_state (genesis_spend melt_conditions) 9))
        launcher_A False = Some genesis_A"
proof -
  let ?c = "PyList [PyBytes [51], PyBytes (replicate 32 0xC6), PyBytes [1],
                       PyList [PyBytes (replicate 32 0xB0), PyBytes (replicate 32 0x50),
                               PyBytes (replicate 32 0x12)]]"
  let ?st1 = "log_add genesis_state (InfoSingletonRemoved (coin (genesis_spend update_conditions)))"
  let ?st1m = "log_add genesis_state (InfoSingletonRemoved (coin (genesis_spend melt_conditions)))"
  have m: "match_dl_singleton test_env (puzzle_reveal (genesis_spend cs))" for cs
    by (simp add: env_simps genesis_spend_coin)
  have n: "replicate 32 0xC3 = coin_name test_env (coin (genesis_spend cs))" for cs
    by (simp only: env_simps genesis_spend_coin(1))
  have p: "get_singleton_record genesis_state (replicate 32 0xC3) = Some genesis_A"
    by (simp add: get_singleton_record_def genesis_state_def empty_state_def genesis_A_eval)
  have r: "run_with_cost test_env (puzzle_reveal (genesis_spend cs)) (solution (genesis_spend cs))
             = Inr (as_python (plist cs))" for cs
    by (simp add: env_simps genesis_spend_coin)
  have iu: "py_iter (as_python (plist update_conditions))
              = Inr [PyList [PyBytes [73], PyBytes [1]],
               PyList [PyBytes [51], PyBytes (replicate 32 0x77), PyBytes [2]],
               ?c,
               PyList [PyBytes [51], PyBytes (replicate 32 0x78), PyBytes [3],
                       PyList [PyBytes (replicate 32 0xB0), PyBytes (replicate 32 0x53),
                               PyBytes (replicate 32 0x12)]]]"
    by (simp only: conditions_eval py_iter.simps)
  have im: "py_iter (as_python (plist melt_conditions))
              = Inr [PyList [PyBytes [73], PyBytes [1]],
               PyList [PyBytes [51], PyBytes (replicate 32 0x77), PyBytes [2]]]"
    by (simp only: conditions_eval py_iter.simps)
  have su: "skipped_readable [PyList [PyBytes [73], PyBytes [1]],
               PyList [PyBytes [51], PyBytes (replicate 32 0x77), PyBytes [2]],
               ?c,
               PyList [PyBytes [51], PyBytes (replicate 32 0x78), PyBytes [3],
                       PyList [PyBytes (replicate 32 0xB0), PyBytes (replicate 32 0x53),
                               PyBytes (replicate 32 0x12)]]]"
    by (simp add: skipped_readable_def create_coin_tests)
  have sm: "skipped_readable [PyList [PyBytes [73], PyBytes [1]],
               PyList [PyBytes [51], PyBytes (replicate 32 0x77), PyBytes [2]]]"
    by (simp add: skipped_readable_def create_coin_tests)
  have fu: "first_odd_create_coin [PyList [PyBytes [73], PyBytes [1]],
               PyList [PyBytes [51], PyBytes (replicate 32 0x77), PyBytes [2]],
               ?c,
               PyList [PyBytes [51], PyBytes (replicate 32 0x78), PyBytes [3],
                       PyList [PyBytes (replicate 32 0xB0), PyBytes (replicate 32 0x53),
                               PyBytes (replicate 32 0x12)]]] = Some ?c"
    by (simp add: first_odd_create_coin_def create_coin_tests)
  have fm: "first_odd_create_coin [PyList [PyBytes [73], PyBytes [1]],
               PyList [PyBytes [51], PyBytes (replicate 32 0x77), PyBytes [2]]] = None"
    by (simp add: first_odd_create_coin_def create_coin_tests)
  have reads: "py_getitem ?c 1 = Inr (PyBytes (replicate 32 0xC6))"
    "bytes32_of (PyBytes (replicate 32 0xC6)) = Inr (replicate 32 0xC6)"
    "py_getitem ?c 2 = Inr (PyBytes [1])" "int_from_bytes (PyBytes [1]) = Inr 1"
    "hint_at ?c 1 = Inr (replicate 32 0x50)" "hint_at ?c 2 = Inr (replicate 32 0x12)"
    "generation genesis_A + 1 < 2 ^ 32" "(1::nat) < 2 ^ 64"
    by (simp_all add: sized32_def big_endian_def hint_at_def genesis_A_eval)
  note tu = successor_from_first_odd_create_coin [OF m [of update_conditions] n [of update_conditions]
      p r [of update_conditions] iu su refl, where height = 9]
  note tm = successor_from_first_odd_create_coin [OF m [of melt_conditions] n [of melt_conditions]
      p r [of melt_conditions] im sm refl, where height = 9]
  have melt: "singleton_removed test_env genesis_state (genesis_spend melt_conditions) 9
          = (Inr (), log_add ?st1m (WarningMelted (launcher_id genesis_A)))"
    and latest: "get_latest_singleton (snd (singleton_removed test_env genesis_state (genesis_spend melt_conditions) 9))
              (launcher_id genesis_A) False
            = get_latest_singleton genesis_state (launcher_id genesis_A) False"
    using tm fm by blast+
  have pre: "first_odd_create_coin [PyList [PyBytes [73], PyBytes [1]],
               PyList [PyBytes [51], PyBytes (replicate 32 0x77), PyBytes [2]],
               ?c,
               PyList [PyBytes [51], PyBytes (replicate 32 0x78), PyBytes [3],
                       PyList [PyBytes (replicate 32 0xB0), PyBytes (replicate 32 0x53),
                               PyBytes (replicate 32 0x12)]]] = Some ?c
      \<and> py_getitem ?c 1 = Inr (PyBytes (replicate 32 0xC6))
      \<and> bytes32_of (PyBytes (replicate 32 0xC6)) = Inr (replicate 32 0xC6)
      \<and> py_getitem ?c 2 = Inr (PyBytes [1]) \<and> int_from_bytes (PyBytes [1]) = Inr 1
      \<and> (1::nat) < 2 ^ 64
      \<and> hint_at ?c 1 = Inr (replicate 32 0x50) \<and> hint_at ?c 2 = Inr (replicate 32 0x12)
      \<and> generation genesis_A + 1 < 2 ^ 32"
    using fu reads by (intro conjI)
  let ?new = "\<lparr>parent_coin_info = replicate 32 0xC3, puzzle_hash = replicate 32 0xC6, amount = 1\<rparr>"
  let ?succ = "\<lparr>coin_id = coin_name test_env ?new,
                  launcher_id = launcher_id genesis_A, root = replicate 32 0x50,
                  inner_puzzle_hash = replicate 32 0x12,
                  confirmed = True, confirmed_at_height = 9,
                  lineage_proof = \<lparr>lp_parent_name = Some (replicate 32 0xC3),
                                   lp_inner_puzzle_hash
                                     = Some (host_layer_hash test_env (replicate 32 0x12) (replicate 32 0x50)),
                                   lp_amount = Some 1\<rparr>,
                  generation = generation genesis_A + 1,
                  timestamp = get_timestamp_for_height test_env 9\<rparr>"
  let ?st4 = "add_interested_coin_ids
                (add_coin_record (add_singleton_record ?st1 ?succ)
                   \<lparr>wcr_coin = ?new, confirmed_block_height = 9,
                    spent_block_height = 0, spent = False, coinbase = False,
                    wcr_wallet_id = dl_wallet_id test_env\<rparr>)
                [coin_name test_env ?new]"
  have u: "singleton_removed test_env genesis_state (genesis_spend update_conditions) 9
             = potentially_handle_resubmit test_env ?st4 (launcher_id genesis_A)"
    using tu [THEN conjunct2, rule_format, OF pre, unfolded Let_def] by (rule conjunct1)
  have e: "?st4 = genesis_state\<lparr>singletons := [genesis_A, rival_1],
                  coin_records := [\<lparr>wcr_coin = ?new,
                                    confirmed_block_height = 9, spent_block_height = 0, spent = False,
                                    coinbase = False, wcr_wallet_id = 2\<rparr>],
                  interested_coin_ids := [replicate 32 0x29],
                  logged := [InfoSingletonRemoved (coin (genesis_spend update_conditions))]\<rparr>"
    by (simp add: add_interested_coin_ids_def add_coin_record_def add_singleton_record_def log_add_def
        genesis_state_def empty_state_def genesis_A_eval records_eval env_simps toy_simps)
  have q: "get_unconfirmed_singletons ?st4 (launcher_id genesis_A) = []"
    unfolding e by (simp add: get_unconfirmed_singletons_def genesis_A_eval records_eval)
  have final: "singleton_removed test_env genesis_state (genesis_spend update_conditions) 9
                 = (Inr (), ?st4)"
    unfolding u by (rule phr_no_pending [OF q])
  have l: "launcher_id genesis_A = launcher_A" by (simp add: genesis_A_eval launcher_A_eval)
  have g: "get_latest_singleton genesis_state launcher_A False = Some genesis_A"
    by (simp add: get_latest_singleton_def genesis_state_def empty_state_def genesis_A_eval
        launcher_A_eval)
  have lg: "log_add ?st1m (WarningMelted launcher_A)
              = genesis_state\<lparr>logged := [InfoSingletonRemoved (coin (genesis_spend melt_conditions)),
                                          WarningMelted launcher_A]\<rparr>"
    by (simp add: log_add_def genesis_state_def empty_state_def)
  note final' = final [unfolded e]
  note melt' = melt [unfolded l lg]
  note latest' = latest [unfolded l g]
  show ?thesis
    using final' melt' latest' by (intro conjI)
qed

end
